theory Spec2Isabelle
  imports Main "HOL-Library.Word"
begin

section \<open>Data model of package conf\<close>

text \<open>
  The package keeps one \<open>Conf\<close> per machine. Its slots point at configuration structs
  of external libraries (nine Ignition versions, coreos-cloudinit). The model keeps, of
  each library struct, the fields that package conf reads or writes, under the path the
  code uses (\<open>Storage.Files\<close> is \<open>v22_Files\<close>, \<open>Systemd.Units\<close> is \<open>v22_Units\<close>,
  \<open>Passwd.Users\<close> is \<open>v22_Users\<close>). Library structs of the same shape share one
  record: the unit and user structs of v1, v2.0 and cloud-config; those of v2.1, v2.2
  and v2.3; the whole configuration of v2.2 and v2.3; the whole configuration of v3.0
  to v3.3. A Go pointer field is an \<open>option\<close> (\<open>None\<close> is \<open>nil\<close>), a Go slice is a
  list (\<open>nil\<close> and the empty slice are both \<open>[]\<close>), a Go \<open>int\<close> is an \<open>int\<close>, and
  \<open>os.FileMode\<close> (a \<open>uint32\<close>) is a \<open>32 word\<close>.
\<close>

record Dropin =
  dropin_Name :: string
  dropin_Contents :: string

record DropinV3 =
  dropin3_Name :: string
  dropin3_Contents :: "string option"

record SystemdUnit =
  unit_Name :: string
  unit_Contents :: string
  unit_Enable :: bool
  unit_DropIns :: "Dropin list"

record UnitV2x =
  unit2_Name :: string
  unit2_Contents :: string
  unit2_Enabled :: "bool option"
  unit2_Dropins :: "Dropin list"

record UnitV3 =
  unit3_Name :: string
  unit3_Contents :: "string option"
  unit3_Enabled :: "bool option"
  unit3_Dropins :: "DropinV3 list"

record PasswdUser =
  user_Name :: string
  user_SSHAuthorizedKeys :: "string list"

record PasswdUserV3 =
  user3_Name :: string
  user3_SSHAuthorizedKeys :: "string list"
  user3_Groups :: "string list"

text \<open>\<open>url.URL\<close> is the standard library's parsed URL; the code stores it and never looks inside.\<close>

datatype URL = ParsedURL string

record FileV1 =
  file1_Path :: string
  file1_Contents :: string
  file1_Mode :: "32 word"

record FilesystemV1 =
  fs1_Files :: "FileV1 list"
  fs1_Create :: "unit option"
  fs1_Format :: string
  fs1_Device :: string

record FileV2 =
  file2_Filesystem :: string
  file2_Path :: string
  file2_Source :: URL
  file2_Mode :: "32 word"

record FileV21 =
  file21_Filesystem :: string
  file21_Path :: string
  file21_Source :: string
  file21_Mode :: int

record FileV22 =
  file22_Filesystem :: string
  file22_Path :: string
  file22_Source :: string
  file22_Mode :: "int option"

record FileV3 =
  file3_Path :: string
  file3_Source :: "string option"
  file3_Mode :: "int option"

record CloudFile =
  cf_Content :: string
  cf_Owner :: string
  cf_Path :: string
  cf_RawFilePermissions :: string

record ConfigV1 =
  v1_Filesystems :: "FilesystemV1 list"
  v1_Units :: "SystemdUnit list"
  v1_Users :: "PasswdUser list"

record ConfigV2 =
  v2_Files :: "FileV2 list"
  v2_Units :: "SystemdUnit list"
  v2_Users :: "PasswdUser list"

record ConfigV21 =
  v21_Files :: "FileV21 list"
  v21_Units :: "UnitV2x list"
  v21_Users :: "PasswdUser list"

record ConfigV22 =
  v22_Files :: "FileV22 list"
  v22_Units :: "UnitV2x list"
  v22_Users :: "PasswdUser list"

type_synonym ConfigV23 = ConfigV22

record ConfigV3 =
  v3_Version :: string
  v3_Files :: "FileV3 list"
  v3_Units :: "UnitV3 list"
  v3_Users :: "PasswdUserV3 list"

type_synonym ConfigV31 = ConfigV3
type_synonym ConfigV32 = ConfigV3
type_synonym ConfigV33 = ConfigV3

record CloudConfig =
  cc_WriteFiles :: "CloudFile list"
  cc_Units :: "SystemdUnit list"
  cc_SSHAuthorizedKeys :: "string list"

record Conf =
  ignitionV1 :: "ConfigV1 option"
  ignitionV2 :: "ConfigV2 option"
  ignitionV21 :: "ConfigV21 option"
  ignitionV22 :: "ConfigV22 option"
  ignitionV23 :: "ConfigV23 option"
  ignitionV3 :: "ConfigV3 option"
  ignitionV31 :: "ConfigV31 option"
  ignitionV32 :: "ConfigV32 option"
  ignitionV33 :: "ConfigV33 option"
  cloudconfig :: "CloudConfig option"
  script :: string
  multipartMime :: string
  user :: string

text \<open>\<open>agent.Key\<close> of golang.org/x/crypto; the code only calls its \<open>String\<close> method.\<close>

record Key =
  key_Format :: string
  key_Blob :: string
  key_Comment :: string

section \<open>Library services and faults\<close>

text \<open>
  The functions of other libraries that the \<open>Conf\<close> methods call are parameters of the
  model, collected in one record: the four Ignition merge functions, the data-URL
  encoder, \<open>url.Parse\<close> (\<open>Inl\<close> is its error), \<open>strings.Replace\<close> with count -1,
  \<open>Key.String\<close>, and the serialisers used by \<open>String\<close>.
\<close>

record lib =
  v3_Merge :: "ConfigV3 \<Rightarrow> ConfigV3 \<Rightarrow> ConfigV3"
  v31_Merge :: "ConfigV31 \<Rightarrow> ConfigV31 \<Rightarrow> ConfigV31"
  v32_Merge :: "ConfigV32 \<Rightarrow> ConfigV32 \<Rightarrow> ConfigV32"
  v33_Merge :: "ConfigV33 \<Rightarrow> ConfigV33 \<Rightarrow> ConfigV33"
  dataurl_EncodeBytes :: "string \<Rightarrow> string"
  url_Parse :: "string \<Rightarrow> string + URL"
  strings_Replace :: "string \<Rightarrow> string \<Rightarrow> string \<Rightarrow> string"
  key_String :: "Key \<Rightarrow> string"
  json_Marshal_V1 :: "ConfigV1 \<Rightarrow> string"
  json_Marshal_V2 :: "ConfigV2 \<Rightarrow> string"
  json_Marshal_V21 :: "ConfigV21 \<Rightarrow> string"
  json_Marshal_V22 :: "ConfigV22 \<Rightarrow> string"
  json_Marshal_V3 :: "ConfigV3 \<Rightarrow> string"
  cloudconfig_String :: "CloudConfig \<Rightarrow> string"

text \<open>
  A Go panic ends the method without a result. \<open>NilPointerDereference\<close> is the runtime
  panic of \<open>*p\<close> on a nil pointer; the others are the \<open>panic\<close> calls of the package.
\<close>

datatype fault =
  NilPointerDereference
  | PanicInvalidKind
  | PanicUnimplementedAddFile
  | PanicUnexpectedFilesystem string

section \<open>Merging into the v3 slots\<close>

definition MergeV3 :: "lib \<Rightarrow> ConfigV3 \<Rightarrow> Conf \<Rightarrow> fault + Conf" where
  "MergeV3 L newConfig c =
     (case ignitionV3 c of
        None \<Rightarrow> Inl NilPointerDereference
      | Some old \<Rightarrow> Inr (c\<lparr>ignitionV3 := Some (v3_Merge L old newConfig)\<rparr>))"

definition MergeV31 :: "lib \<Rightarrow> ConfigV31 \<Rightarrow> Conf \<Rightarrow> fault + Conf" where
  "MergeV31 L newConfig c =
     (case ignitionV31 c of
        None \<Rightarrow> Inl NilPointerDereference
      | Some old \<Rightarrow> Inr (c\<lparr>ignitionV31 := Some (v31_Merge L old newConfig)\<rparr>))"

definition MergeV32 :: "lib \<Rightarrow> ConfigV32 \<Rightarrow> Conf \<Rightarrow> fault + Conf" where
  "MergeV32 L newConfig c =
     (case ignitionV32 c of
        None \<Rightarrow> Inl NilPointerDereference
      | Some old \<Rightarrow> Inr (c\<lparr>ignitionV32 := Some (v32_Merge L old newConfig)\<rparr>))"

definition MergeV33 :: "lib \<Rightarrow> ConfigV33 \<Rightarrow> Conf \<Rightarrow> fault + Conf" where
  "MergeV33 L newConfig c =
     (case ignitionV33 c of
        None \<Rightarrow> Inl NilPointerDereference
      | Some old \<Rightarrow> Inr (c\<lparr>ignitionV33 := Some (v33_Merge L old newConfig)\<rparr>))"

section \<open>AddSystemdUnitDropin\<close>

text \<open>
  The loop of \<open>addSystemdDropinV1\<close>, \<open>addSystemdDropinV2\<close> and
  \<open>addSystemdDropinCloudConfig\<close> over the unit slice: the first unit whose name equals
  \<open>service\<close> gets the drop-in appended and the method returns; when the loop ends
  without a match a unit holding only the name and the drop-in is appended.
\<close>

fun dropinLoop :: "string \<Rightarrow> string \<Rightarrow> string \<Rightarrow> SystemdUnit list \<Rightarrow> SystemdUnit list" where
  "dropinLoop service name contents [] =
     [\<lparr>unit_Name = service, unit_Contents = [], unit_Enable = False,
        unit_DropIns = [\<lparr>dropin_Name = name, dropin_Contents = contents\<rparr>]\<rparr>]"
| "dropinLoop service name contents (u # us) =
     (if unit_Name u = service
      then u\<lparr>unit_DropIns := unit_DropIns u @ [\<lparr>dropin_Name = name, dropin_Contents = contents\<rparr>]\<rparr> # us
      else u # dropinLoop service name contents us)"

text \<open>The same loop of \<open>addSystemdDropinV21\<close>, \<open>V22\<close> and \<open>V23\<close>.\<close>

fun dropinLoop2x :: "string \<Rightarrow> string \<Rightarrow> string \<Rightarrow> UnitV2x list \<Rightarrow> UnitV2x list" where
  "dropinLoop2x service name contents [] =
     [\<lparr>unit2_Name = service, unit2_Contents = [], unit2_Enabled = None,
        unit2_Dropins = [\<lparr>dropin_Name = name, dropin_Contents = contents\<rparr>]\<rparr>]"
| "dropinLoop2x service name contents (u # us) =
     (if unit2_Name u = service
      then u\<lparr>unit2_Dropins := unit2_Dropins u @ [\<lparr>dropin_Name = name, dropin_Contents = contents\<rparr>]\<rparr> # us
      else u # dropinLoop2x service name contents us)"

text \<open>
  The per-version methods dereference their own slot; on a nil slot Go panics. The
  dispatching method only calls them on a non-nil slot, except where noted below.
\<close>

definition addSystemdDropinV1 :: "string \<Rightarrow> string \<Rightarrow> string \<Rightarrow> Conf \<Rightarrow> fault + Conf" where
  "addSystemdDropinV1 service name contents c =
     (case ignitionV1 c of
        None \<Rightarrow> Inl NilPointerDereference
      | Some d \<Rightarrow> Inr (c\<lparr>ignitionV1 := Some (d\<lparr>v1_Units := dropinLoop service name contents (v1_Units d)\<rparr>)\<rparr>))"

definition addSystemdDropinV2 :: "string \<Rightarrow> string \<Rightarrow> string \<Rightarrow> Conf \<Rightarrow> fault + Conf" where
  "addSystemdDropinV2 service name contents c =
     (case ignitionV2 c of
        None \<Rightarrow> Inl NilPointerDereference
      | Some d \<Rightarrow> Inr (c\<lparr>ignitionV2 := Some (d\<lparr>v2_Units := dropinLoop service name contents (v2_Units d)\<rparr>)\<rparr>))"

definition addSystemdDropinV21 :: "string \<Rightarrow> string \<Rightarrow> string \<Rightarrow> Conf \<Rightarrow> fault + Conf" where
  "addSystemdDropinV21 service name contents c =
     (case ignitionV21 c of
        None \<Rightarrow> Inl NilPointerDereference
      | Some d \<Rightarrow> Inr (c\<lparr>ignitionV21 := Some (d\<lparr>v21_Units := dropinLoop2x service name contents (v21_Units d)\<rparr>)\<rparr>))"

definition addSystemdDropinV22 :: "string \<Rightarrow> string \<Rightarrow> string \<Rightarrow> Conf \<Rightarrow> fault + Conf" where
  "addSystemdDropinV22 service name contents c =
     (case ignitionV22 c of
        None \<Rightarrow> Inl NilPointerDereference
      | Some d \<Rightarrow> Inr (c\<lparr>ignitionV22 := Some (d\<lparr>v22_Units := dropinLoop2x service name contents (v22_Units d)\<rparr>)\<rparr>))"

definition addSystemdDropinV23 :: "string \<Rightarrow> string \<Rightarrow> string \<Rightarrow> Conf \<Rightarrow> fault + Conf" where
  "addSystemdDropinV23 service name contents c =
     (case ignitionV23 c of
        None \<Rightarrow> Inl NilPointerDereference
      | Some d \<Rightarrow> Inr (c\<lparr>ignitionV23 := Some (d\<lparr>v22_Units := dropinLoop2x service name contents (v22_Units d)\<rparr>)\<rparr>))"

text \<open>The overlay of the v3 methods: a configuration of the given version with one unit.\<close>

definition dropinOverlay :: "string \<Rightarrow> string \<Rightarrow> string \<Rightarrow> string \<Rightarrow> ConfigV3" where
  "dropinOverlay version service name contents =
     \<lparr>v3_Version = version, v3_Files = [],
      v3_Units = [\<lparr>unit3_Name = service, unit3_Contents = None, unit3_Enabled = None,
                   unit3_Dropins = [\<lparr>dropin3_Name = name, dropin3_Contents = Some contents\<rparr>]\<rparr>],
      v3_Users = []\<rparr>"

definition addSystemdDropinV3 :: "lib \<Rightarrow> string \<Rightarrow> string \<Rightarrow> string \<Rightarrow> Conf \<Rightarrow> fault + Conf" where
  "addSystemdDropinV3 L service name contents c =
     MergeV3 L (dropinOverlay ''3.0.0'' service name contents) c"

definition addSystemdDropinV31 :: "lib \<Rightarrow> string \<Rightarrow> string \<Rightarrow> string \<Rightarrow> Conf \<Rightarrow> fault + Conf" where
  "addSystemdDropinV31 L service name contents c =
     MergeV31 L (dropinOverlay ''3.1.0'' service name contents) c"

definition addSystemdDropinV32 :: "lib \<Rightarrow> string \<Rightarrow> string \<Rightarrow> string \<Rightarrow> Conf \<Rightarrow> fault + Conf" where
  "addSystemdDropinV32 L service name contents c =
     MergeV32 L (dropinOverlay ''3.2.0'' service name contents) c"

definition addSystemdDropinV33 :: "lib \<Rightarrow> string \<Rightarrow> string \<Rightarrow> string \<Rightarrow> Conf \<Rightarrow> fault + Conf" where
  "addSystemdDropinV33 L service name contents c =
     MergeV33 L (dropinOverlay ''3.3.0'' service name contents) c"

definition addSystemdDropinCloudConfig :: "string \<Rightarrow> string \<Rightarrow> string \<Rightarrow> Conf \<Rightarrow> fault + Conf" where
  "addSystemdDropinCloudConfig service name contents c =
     (case cloudconfig c of
        None \<Rightarrow> Inl NilPointerDereference
      | Some d \<Rightarrow> Inr (c\<lparr>cloudconfig := Some (d\<lparr>cc_Units := dropinLoop service name contents (cc_Units d)\<rparr>)\<rparr>))"

text \<open>
  The dispatch, in the order of the source. The branch for a non-nil \<open>ignitionV31\<close>
  calls \<open>addSystemdDropinV3\<close>, as the source does. No branch handles a \<open>Conf\<close> with no
  Ignition and no cloud-config slot: the method returns with nothing changed.
\<close>

definition AddSystemdUnitDropin :: "lib \<Rightarrow> string \<Rightarrow> string \<Rightarrow> string \<Rightarrow> Conf \<Rightarrow> fault + Conf" where
  "AddSystemdUnitDropin L service name contents c =
     (if ignitionV1 c \<noteq> None then addSystemdDropinV1 service name contents c
      else if ignitionV2 c \<noteq> None then addSystemdDropinV2 service name contents c
      else if ignitionV21 c \<noteq> None then addSystemdDropinV21 service name contents c
      else if ignitionV22 c \<noteq> None then addSystemdDropinV22 service name contents c
      else if ignitionV23 c \<noteq> None then addSystemdDropinV23 service name contents c
      else if ignitionV3 c \<noteq> None then addSystemdDropinV3 L service name contents c
      else if ignitionV31 c \<noteq> None then addSystemdDropinV3 L service name contents c
      else if ignitionV32 c \<noteq> None then addSystemdDropinV32 L service name contents c
      else if ignitionV33 c \<noteq> None then addSystemdDropinV33 L service name contents c
      else if cloudconfig c \<noteq> None then addSystemdDropinCloudConfig service name contents c
      else Inr c)"

section \<open>AddFile\<close>

definition addFileV2 :: "lib \<Rightarrow> string \<Rightarrow> string \<Rightarrow> string \<Rightarrow> int \<Rightarrow> Conf \<Rightarrow> fault + Conf" where
  "addFileV2 L path filesystem contents mode c =
     (case url_Parse L (dataurl_EncodeBytes L contents) of
        Inl err \<Rightarrow> Inr c
      | Inr u \<Rightarrow>
          (case ignitionV2 c of
             None \<Rightarrow> Inl NilPointerDereference
           | Some d \<Rightarrow> Inr (c\<lparr>ignitionV2 := Some (d\<lparr>v2_Files := v2_Files d @
               [\<lparr>file2_Filesystem = filesystem, file2_Path = path, file2_Source = u,
                 file2_Mode = word_of_int mode\<rparr>]\<rparr>)\<rparr>)))"

definition addFileV21 :: "lib \<Rightarrow> string \<Rightarrow> string \<Rightarrow> string \<Rightarrow> int \<Rightarrow> Conf \<Rightarrow> fault + Conf" where
  "addFileV21 L path filesystem contents mode c =
     (case ignitionV21 c of
        None \<Rightarrow> Inl NilPointerDereference
      | Some d \<Rightarrow> Inr (c\<lparr>ignitionV21 := Some (d\<lparr>v21_Files := v21_Files d @
          [\<lparr>file21_Filesystem = filesystem, file21_Path = path,
            file21_Source = dataurl_EncodeBytes L contents, file21_Mode = mode\<rparr>]\<rparr>)\<rparr>))"

definition addFileV22 :: "lib \<Rightarrow> string \<Rightarrow> string \<Rightarrow> string \<Rightarrow> int \<Rightarrow> Conf \<Rightarrow> fault + Conf" where
  "addFileV22 L path filesystem contents mode c =
     (case ignitionV22 c of
        None \<Rightarrow> Inl NilPointerDereference
      | Some d \<Rightarrow> Inr (c\<lparr>ignitionV22 := Some (d\<lparr>v22_Files := v22_Files d @
          [\<lparr>file22_Filesystem = filesystem, file22_Path = path,
            file22_Source = dataurl_EncodeBytes L contents, file22_Mode = Some mode\<rparr>]\<rparr>)\<rparr>))"

definition addFileV23 :: "lib \<Rightarrow> string \<Rightarrow> string \<Rightarrow> string \<Rightarrow> int \<Rightarrow> Conf \<Rightarrow> fault + Conf" where
  "addFileV23 L path filesystem contents mode c =
     (case ignitionV23 c of
        None \<Rightarrow> Inl NilPointerDereference
      | Some d \<Rightarrow> Inr (c\<lparr>ignitionV23 := Some (d\<lparr>v22_Files := v22_Files d @
          [\<lparr>file22_Filesystem = filesystem, file22_Path = path,
            file22_Source = dataurl_EncodeBytes L contents, file22_Mode = Some mode\<rparr>]\<rparr>)\<rparr>))"

text \<open>The overlay of the v3 methods; they do not use their \<open>filesystem\<close> argument.\<close>

definition fileOverlay :: "lib \<Rightarrow> string \<Rightarrow> string \<Rightarrow> string \<Rightarrow> int \<Rightarrow> ConfigV3" where
  "fileOverlay L version path contents mode =
     \<lparr>v3_Version = version,
      v3_Files = [\<lparr>file3_Path = path, file3_Source = Some (dataurl_EncodeBytes L contents),
                   file3_Mode = Some mode\<rparr>],
      v3_Units = [], v3_Users = []\<rparr>"

definition addFileV3 :: "lib \<Rightarrow> string \<Rightarrow> string \<Rightarrow> string \<Rightarrow> int \<Rightarrow> Conf \<Rightarrow> fault + Conf" where
  "addFileV3 L path filesystem contents mode c = MergeV3 L (fileOverlay L ''3.0.0'' path contents mode) c"

definition addFileV31 :: "lib \<Rightarrow> string \<Rightarrow> string \<Rightarrow> string \<Rightarrow> int \<Rightarrow> Conf \<Rightarrow> fault + Conf" where
  "addFileV31 L path filesystem contents mode c = MergeV31 L (fileOverlay L ''3.1.0'' path contents mode) c"

definition addFileV32 :: "lib \<Rightarrow> string \<Rightarrow> string \<Rightarrow> string \<Rightarrow> int \<Rightarrow> Conf \<Rightarrow> fault + Conf" where
  "addFileV32 L path filesystem contents mode c = MergeV32 L (fileOverlay L ''3.2.0'' path contents mode) c"

definition addFileV33 :: "lib \<Rightarrow> string \<Rightarrow> string \<Rightarrow> string \<Rightarrow> int \<Rightarrow> Conf \<Rightarrow> fault + Conf" where
  "addFileV33 L path filesystem contents mode c = MergeV33 L (fileOverlay L ''3.3.0'' path contents mode) c"

definition rootDevice :: string where
  "rootDevice = ''/dev/disk/by-partlabel/ROOT''"

text \<open>
  \<open>addFileV1\<close>: with no filesystem yet, one ext4 filesystem on the root device is
  created around the file; otherwise the file goes to the first filesystem, and the
  method panics when that filesystem is on another device.
\<close>

definition addFileV1 :: "string \<Rightarrow> string \<Rightarrow> string \<Rightarrow> int \<Rightarrow> Conf \<Rightarrow> fault + Conf" where
  "addFileV1 path filesystem contents mode c =
     (let file = \<lparr>file1_Path = path, file1_Contents = contents, file1_Mode = word_of_int mode\<rparr> in
      case ignitionV1 c of
        None \<Rightarrow> Inl NilPointerDereference
      | Some d \<Rightarrow>
          (case v1_Filesystems d of
             [] \<Rightarrow> Inr (c\<lparr>ignitionV1 := Some (d\<lparr>v1_Filesystems :=
                     [\<lparr>fs1_Files = [file], fs1_Create = None, fs1_Format = ''ext4'',
                       fs1_Device = rootDevice\<rparr>]\<rparr>)\<rparr>)
           | fs # rest \<Rightarrow>
               if fs1_Device fs \<noteq> rootDevice
               then Inl (PanicUnexpectedFilesystem (fs1_Device fs))
               else Inr (c\<lparr>ignitionV1 := Some (d\<lparr>v1_Filesystems :=
                      fs\<lparr>fs1_Files := fs1_Files fs @ [file]\<rparr> # rest\<rparr>)\<rparr>)))"

text \<open>\<open>fmt.Sprintf("%#o", mode)\<close>: the octal digits behind a leading 0, and 0 itself as "0".\<close>

fun octal_digits :: "nat \<Rightarrow> string" where
  "octal_digits n =
     (if n < 8 then [''01234567'' ! n] else octal_digits (n div 8) @ [''01234567'' ! (n mod 8)])"

declare octal_digits.simps [simp del]

definition sprintf_sharp_o :: "int \<Rightarrow> string" where
  "sprintf_sharp_o m =
     (if m = 0 then ''0''
      else if m < 0 then ''-0'' @ octal_digits (nat (- m))
      else ''0'' @ octal_digits (nat m))"

definition addFileCloudConfig :: "string \<Rightarrow> string \<Rightarrow> string \<Rightarrow> int \<Rightarrow> Conf \<Rightarrow> fault + Conf" where
  "addFileCloudConfig path filesystem contents mode c =
     (case cloudconfig c of
        None \<Rightarrow> Inl NilPointerDereference
      | Some d \<Rightarrow> Inr (c\<lparr>cloudconfig := Some (d\<lparr>cc_WriteFiles := cc_WriteFiles d @
          [\<lparr>cf_Content = contents, cf_Owner = ''root'', cf_Path = path,
            cf_RawFilePermissions = sprintf_sharp_o mode\<rparr>]\<rparr>)\<rparr>))"

text \<open>The dispatch of \<open>AddFile\<close> starts at the newest version and panics in its last branch.\<close>

definition AddFile :: "lib \<Rightarrow> string \<Rightarrow> string \<Rightarrow> string \<Rightarrow> int \<Rightarrow> Conf \<Rightarrow> fault + Conf" where
  "AddFile L path filesystem contents mode c =
     (if ignitionV33 c \<noteq> None then addFileV33 L path filesystem contents mode c
      else if ignitionV32 c \<noteq> None then addFileV32 L path filesystem contents mode c
      else if ignitionV31 c \<noteq> None then addFileV31 L path filesystem contents mode c
      else if ignitionV3 c \<noteq> None then addFileV3 L path filesystem contents mode c
      else if ignitionV2 c \<noteq> None then addFileV2 L path filesystem contents mode c
      else if ignitionV21 c \<noteq> None then addFileV21 L path filesystem contents mode c
      else if ignitionV22 c \<noteq> None then addFileV22 L path filesystem contents mode c
      else if ignitionV23 c \<noteq> None then addFileV23 L path filesystem contents mode c
      else if ignitionV1 c \<noteq> None then addFileV1 path filesystem contents mode c
      else if cloudconfig c \<noteq> None then addFileCloudConfig path filesystem contents mode c
      else Inl PanicUnimplementedAddFile)"

section \<open>AddSystemdUnit\<close>

definition addSystemdUnitV1 :: "string \<Rightarrow> string \<Rightarrow> bool \<Rightarrow> Conf \<Rightarrow> fault + Conf" where
  "addSystemdUnitV1 name contents enable c =
     (case ignitionV1 c of
        None \<Rightarrow> Inl NilPointerDereference
      | Some d \<Rightarrow> Inr (c\<lparr>ignitionV1 := Some (d\<lparr>v1_Units := v1_Units d @
          [\<lparr>unit_Name = name, unit_Contents = contents, unit_Enable = enable, unit_DropIns = []\<rparr>]\<rparr>)\<rparr>))"

definition addSystemdUnitV2 :: "string \<Rightarrow> string \<Rightarrow> bool \<Rightarrow> Conf \<Rightarrow> fault + Conf" where
  "addSystemdUnitV2 name contents enable c =
     (case ignitionV2 c of
        None \<Rightarrow> Inl NilPointerDereference
      | Some d \<Rightarrow> Inr (c\<lparr>ignitionV2 := Some (d\<lparr>v2_Units := v2_Units d @
          [\<lparr>unit_Name = name, unit_Contents = contents, unit_Enable = enable, unit_DropIns = []\<rparr>]\<rparr>)\<rparr>))"

definition addSystemdUnitV21 :: "string \<Rightarrow> string \<Rightarrow> bool \<Rightarrow> Conf \<Rightarrow> fault + Conf" where
  "addSystemdUnitV21 name contents enable c =
     (case ignitionV21 c of
        None \<Rightarrow> Inl NilPointerDereference
      | Some d \<Rightarrow> Inr (c\<lparr>ignitionV21 := Some (d\<lparr>v21_Units := v21_Units d @
          [\<lparr>unit2_Name = name, unit2_Contents = contents, unit2_Enabled = Some enable, unit2_Dropins = []\<rparr>]\<rparr>)\<rparr>))"

definition addSystemdUnitV22 :: "string \<Rightarrow> string \<Rightarrow> bool \<Rightarrow> Conf \<Rightarrow> fault + Conf" where
  "addSystemdUnitV22 name contents enable c =
     (case ignitionV22 c of
        None \<Rightarrow> Inl NilPointerDereference
      | Some d \<Rightarrow> Inr (c\<lparr>ignitionV22 := Some (d\<lparr>v22_Units := v22_Units d @
          [\<lparr>unit2_Name = name, unit2_Contents = contents, unit2_Enabled = Some enable, unit2_Dropins = []\<rparr>]\<rparr>)\<rparr>))"

definition addSystemdUnitV23 :: "string \<Rightarrow> string \<Rightarrow> bool \<Rightarrow> Conf \<Rightarrow> fault + Conf" where
  "addSystemdUnitV23 name contents enable c =
     (case ignitionV23 c of
        None \<Rightarrow> Inl NilPointerDereference
      | Some d \<Rightarrow> Inr (c\<lparr>ignitionV23 := Some (d\<lparr>v22_Units := v22_Units d @
          [\<lparr>unit2_Name = name, unit2_Contents = contents, unit2_Enabled = Some enable, unit2_Dropins = []\<rparr>]\<rparr>)\<rparr>))"

definition unitOverlay :: "string \<Rightarrow> string \<Rightarrow> string \<Rightarrow> bool \<Rightarrow> ConfigV3" where
  "unitOverlay version name contents enable =
     \<lparr>v3_Version = version, v3_Files = [],
      v3_Units = [\<lparr>unit3_Name = name, unit3_Contents = Some contents, unit3_Enabled = Some enable,
                   unit3_Dropins = []\<rparr>],
      v3_Users = []\<rparr>"

definition addSystemdUnitV3 :: "lib \<Rightarrow> string \<Rightarrow> string \<Rightarrow> bool \<Rightarrow> Conf \<Rightarrow> fault + Conf" where
  "addSystemdUnitV3 L name contents enable c = MergeV3 L (unitOverlay ''3.0.0'' name contents enable) c"

definition addSystemdUnitV31 :: "lib \<Rightarrow> string \<Rightarrow> string \<Rightarrow> bool \<Rightarrow> Conf \<Rightarrow> fault + Conf" where
  "addSystemdUnitV31 L name contents enable c = MergeV31 L (unitOverlay ''3.1.0'' name contents enable) c"

definition addSystemdUnitV32 :: "lib \<Rightarrow> string \<Rightarrow> string \<Rightarrow> bool \<Rightarrow> Conf \<Rightarrow> fault + Conf" where
  "addSystemdUnitV32 L name contents enable c = MergeV32 L (unitOverlay ''3.2.0'' name contents enable) c"

definition addSystemdUnitV33 :: "lib \<Rightarrow> string \<Rightarrow> string \<Rightarrow> bool \<Rightarrow> Conf \<Rightarrow> fault + Conf" where
  "addSystemdUnitV33 L name contents enable c = MergeV33 L (unitOverlay ''3.3.0'' name contents enable) c"

definition addSystemdUnitCloudConfig :: "string \<Rightarrow> string \<Rightarrow> bool \<Rightarrow> Conf \<Rightarrow> fault + Conf" where
  "addSystemdUnitCloudConfig name contents enable c =
     (case cloudconfig c of
        None \<Rightarrow> Inl NilPointerDereference
      | Some d \<Rightarrow> Inr (c\<lparr>cloudconfig := Some (d\<lparr>cc_Units := cc_Units d @
          [\<lparr>unit_Name = name, unit_Contents = contents, unit_Enable = enable, unit_DropIns = []\<rparr>]\<rparr>)\<rparr>))"

definition AddSystemdUnit :: "lib \<Rightarrow> string \<Rightarrow> string \<Rightarrow> bool \<Rightarrow> Conf \<Rightarrow> fault + Conf" where
  "AddSystemdUnit L name contents enable c =
     (if ignitionV1 c \<noteq> None then addSystemdUnitV1 name contents enable c
      else if ignitionV2 c \<noteq> None then addSystemdUnitV2 name contents enable c
      else if ignitionV21 c \<noteq> None then addSystemdUnitV21 name contents enable c
      else if ignitionV22 c \<noteq> None then addSystemdUnitV22 name contents enable c
      else if ignitionV23 c \<noteq> None then addSystemdUnitV23 name contents enable c
      else if ignitionV3 c \<noteq> None then addSystemdUnitV3 L name contents enable c
      else if ignitionV31 c \<noteq> None then addSystemdUnitV31 L name contents enable c
      else if ignitionV32 c \<noteq> None then addSystemdUnitV32 L name contents enable c
      else if ignitionV33 c \<noteq> None then addSystemdUnitV33 L name contents enable c
      else if cloudconfig c \<noteq> None then addSystemdUnitCloudConfig name contents enable c
      else Inr c)"

section \<open>CopyKeys\<close>

definition keysToStrings :: "lib \<Rightarrow> Key list \<Rightarrow> string list" where
  "keysToStrings L keys = map (key_String L) keys"

text \<open>
  The loop of the \<open>copyKeysIgnition\<close> methods of v1 to v2.3 over the users: the first
  user named like the target user gets the keys appended; without one, a user holding
  the keys is appended.
\<close>

fun copyKeysLoop :: "string \<Rightarrow> string list \<Rightarrow> PasswdUser list \<Rightarrow> PasswdUser list" where
  "copyKeysLoop target keyStrs [] = [\<lparr>user_Name = target, user_SSHAuthorizedKeys = keyStrs\<rparr>]"
| "copyKeysLoop target keyStrs (x # xs) =
     (if user_Name x = target
      then x\<lparr>user_SSHAuthorizedKeys := user_SSHAuthorizedKeys x @ keyStrs\<rparr> # xs
      else x # copyKeysLoop target keyStrs xs)"

definition copyKeysIgnitionV1 :: "lib \<Rightarrow> Key list \<Rightarrow> Conf \<Rightarrow> fault + Conf" where
  "copyKeysIgnitionV1 L keys c =
     (case ignitionV1 c of
        None \<Rightarrow> Inl NilPointerDereference
      | Some d \<Rightarrow> Inr (c\<lparr>ignitionV1 := Some (d\<lparr>v1_Users :=
          copyKeysLoop (user c) (keysToStrings L keys) (v1_Users d)\<rparr>)\<rparr>))"

definition copyKeysIgnitionV2 :: "lib \<Rightarrow> Key list \<Rightarrow> Conf \<Rightarrow> fault + Conf" where
  "copyKeysIgnitionV2 L keys c =
     (case ignitionV2 c of
        None \<Rightarrow> Inl NilPointerDereference
      | Some d \<Rightarrow> Inr (c\<lparr>ignitionV2 := Some (d\<lparr>v2_Users :=
          copyKeysLoop (user c) (keysToStrings L keys) (v2_Users d)\<rparr>)\<rparr>))"

definition copyKeysIgnitionV21 :: "lib \<Rightarrow> Key list \<Rightarrow> Conf \<Rightarrow> fault + Conf" where
  "copyKeysIgnitionV21 L keys c =
     (case ignitionV21 c of
        None \<Rightarrow> Inl NilPointerDereference
      | Some d \<Rightarrow> Inr (c\<lparr>ignitionV21 := Some (d\<lparr>v21_Users :=
          copyKeysLoop (user c) (map (key_String L) keys) (v21_Users d)\<rparr>)\<rparr>))"

definition copyKeysIgnitionV22 :: "lib \<Rightarrow> Key list \<Rightarrow> Conf \<Rightarrow> fault + Conf" where
  "copyKeysIgnitionV22 L keys c =
     (case ignitionV22 c of
        None \<Rightarrow> Inl NilPointerDereference
      | Some d \<Rightarrow> Inr (c\<lparr>ignitionV22 := Some (d\<lparr>v22_Users :=
          copyKeysLoop (user c) (map (key_String L) keys) (v22_Users d)\<rparr>)\<rparr>))"

definition copyKeysIgnitionV23 :: "lib \<Rightarrow> Key list \<Rightarrow> Conf \<Rightarrow> fault + Conf" where
  "copyKeysIgnitionV23 L keys c =
     (case ignitionV23 c of
        None \<Rightarrow> Inl NilPointerDereference
      | Some d \<Rightarrow> Inr (c\<lparr>ignitionV23 := Some (d\<lparr>v22_Users :=
          copyKeysLoop (user c) (map (key_String L) keys) (v22_Users d)\<rparr>)\<rparr>))"

definition keysOverlay :: "string \<Rightarrow> string \<Rightarrow> string list \<Rightarrow> ConfigV3" where
  "keysOverlay version target keyObjs =
     \<lparr>v3_Version = version, v3_Files = [], v3_Units = [],
      v3_Users = [\<lparr>user3_Name = target, user3_SSHAuthorizedKeys = keyObjs, user3_Groups = []\<rparr>]\<rparr>"

definition copyKeysIgnitionV3 :: "lib \<Rightarrow> Key list \<Rightarrow> Conf \<Rightarrow> fault + Conf" where
  "copyKeysIgnitionV3 L keys c = MergeV3 L (keysOverlay ''3.0.0'' (user c) (map (key_String L) keys)) c"

definition copyKeysIgnitionV31 :: "lib \<Rightarrow> Key list \<Rightarrow> Conf \<Rightarrow> fault + Conf" where
  "copyKeysIgnitionV31 L keys c = MergeV31 L (keysOverlay ''3.1.0'' (user c) (map (key_String L) keys)) c"

definition copyKeysIgnitionV32 :: "lib \<Rightarrow> Key list \<Rightarrow> Conf \<Rightarrow> fault + Conf" where
  "copyKeysIgnitionV32 L keys c = MergeV32 L (keysOverlay ''3.2.0'' (user c) (map (key_String L) keys)) c"

definition copyKeysIgnitionV33 :: "lib \<Rightarrow> Key list \<Rightarrow> Conf \<Rightarrow> fault + Conf" where
  "copyKeysIgnitionV33 L keys c = MergeV33 L (keysOverlay ''3.3.0'' (user c) (map (key_String L) keys)) c"

definition copyKeysCloudConfig :: "lib \<Rightarrow> Key list \<Rightarrow> Conf \<Rightarrow> fault + Conf" where
  "copyKeysCloudConfig L keys c =
     (case cloudconfig c of
        None \<Rightarrow> Inl NilPointerDereference
      | Some d \<Rightarrow> Inr (c\<lparr>cloudconfig := Some (d\<lparr>cc_SSHAuthorizedKeys :=
          cc_SSHAuthorizedKeys d @ keysToStrings L keys\<rparr>)\<rparr>))"

fun strings_Join :: "string list \<Rightarrow> string \<Rightarrow> string" where
  "strings_Join [] sep = []"
| "strings_Join [x] sep = x"
| "strings_Join (x # y # r) sep = x @ sep @ strings_Join (y # r) sep"

definition copyKeysScript :: "lib \<Rightarrow> Key list \<Rightarrow> Conf \<Rightarrow> fault + Conf" where
  "copyKeysScript L keys c =
     (let keyString = strings_Join (keysToStrings L keys) [CHR 0x0A]
      in Inr (c\<lparr>script := strings_Replace L (script c) ''@SSH_KEYS@'' keyString\<rparr>))"

text \<open>
  The dispatch of \<open>CopyKeys\<close>. Its last branch is the script; a \<open>Conf\<close> with no Ignition
  slot, no cloud-config and an empty script falls through and is returned as it is.
\<close>

definition CopyKeys :: "lib \<Rightarrow> Key list \<Rightarrow> Conf \<Rightarrow> fault + Conf" where
  "CopyKeys L keys c =
     (if ignitionV1 c \<noteq> None then copyKeysIgnitionV1 L keys c
      else if ignitionV2 c \<noteq> None then copyKeysIgnitionV2 L keys c
      else if ignitionV21 c \<noteq> None then copyKeysIgnitionV21 L keys c
      else if ignitionV22 c \<noteq> None then copyKeysIgnitionV22 L keys c
      else if ignitionV23 c \<noteq> None then copyKeysIgnitionV23 L keys c
      else if ignitionV3 c \<noteq> None then copyKeysIgnitionV3 L keys c
      else if ignitionV31 c \<noteq> None then copyKeysIgnitionV31 L keys c
      else if ignitionV32 c \<noteq> None then copyKeysIgnitionV32 L keys c
      else if ignitionV33 c \<noteq> None then copyKeysIgnitionV33 L keys c
      else if cloudconfig c \<noteq> None then copyKeysCloudConfig L keys c
      else if script c \<noteq> [] then copyKeysScript L keys c
      else Inr c)"

section \<open>Queries and serialisation\<close>

definition IsIgnition :: "Conf \<Rightarrow> bool" where
  "IsIgnition c \<longleftrightarrow>
     ignitionV1 c \<noteq> None \<or> ignitionV2 c \<noteq> None \<or> ignitionV21 c \<noteq> None \<or>
     ignitionV22 c \<noteq> None \<or> ignitionV23 c \<noteq> None \<or> ignitionV3 c \<noteq> None \<or>
     ignitionV31 c \<noteq> None \<or> ignitionV32 c \<noteq> None \<or> ignitionV33 c \<noteq> None"

definition IsEmpty :: "Conf \<Rightarrow> bool" where
  "IsEmpty c \<longleftrightarrow> \<not> IsIgnition c \<and> cloudconfig c = None \<and> script c = []"

text \<open>
  \<open>String\<close> serialises the first non-nil slot (\<open>the\<close> reads a slot that the test before
  it found non-nil); \<open>Bytes\<close> is the same text as a byte slice.
\<close>

definition String :: "lib \<Rightarrow> Conf \<Rightarrow> string" where
  "String L c =
     (if ignitionV1 c \<noteq> None then json_Marshal_V1 L (the (ignitionV1 c))
      else if ignitionV2 c \<noteq> None then json_Marshal_V2 L (the (ignitionV2 c))
      else if ignitionV21 c \<noteq> None then json_Marshal_V21 L (the (ignitionV21 c))
      else if ignitionV22 c \<noteq> None then json_Marshal_V22 L (the (ignitionV22 c))
      else if ignitionV23 c \<noteq> None then json_Marshal_V22 L (the (ignitionV23 c))
      else if ignitionV3 c \<noteq> None then json_Marshal_V3 L (the (ignitionV3 c))
      else if ignitionV31 c \<noteq> None then json_Marshal_V3 L (the (ignitionV31 c))
      else if ignitionV32 c \<noteq> None then json_Marshal_V3 L (the (ignitionV32 c))
      else if ignitionV33 c \<noteq> None then json_Marshal_V3 L (the (ignitionV33 c))
      else if cloudconfig c \<noteq> None then cloudconfig_String L (the (cloudconfig c))
      else if script c \<noteq> [] then script c
      else if multipartMime c \<noteq> [] then multipartMime c
      else [])"

definition Bytes :: "lib \<Rightarrow> Conf \<Rightarrow> string" where
  "Bytes L c = String L c"

section \<open>AddUserToGroups\<close>

text \<open>
  Go errors are values. The two Ignition libraries each have their own
  \<open>ErrUnknownVersion\<close>: that of flatcar/ignition (v1 to v2.3) and that of
  coreos/ignition/v2 (v3.0 to v3.3). The errors built with \<open>fmt.Errorf\<close> keep what they
  are built from instead of the formatted text. A report is seen through
  \<open>IsFatal()\<close> and \<open>Entries\<close>.
\<close>

record Report =
  report_IsFatal :: bool
  report_Entries :: "string list"

datatype go_error =
  ErrUnknownVersion
  | Err3UnknownVersion
  | ErrMissingAddUserToGroups
  | ErrParsingCLC Report
  | ErrRenderingCLC string Report
  | ErrConvertingButane go_error
  | ErrConvertingButaneReport Report
  | ErrLibrary string







section \<open>UserData\<close>

type_synonym kind = int

definition kindEmpty :: kind where "kindEmpty = 0"
definition kindCloudConfig :: kind where "kindCloudConfig = 1"
definition kindIgnition :: kind where "kindIgnition = 2"
definition kindContainerLinuxConfig :: kind where "kindContainerLinuxConfig = 3"
definition kindScript :: kind where "kindScript = 4"
definition kindButane :: kind where "kindButane = 5"
definition kindMultipartMime :: kind where "kindMultipartMime = 6"

record UserData =
  kind :: kind
  data :: string
  extraKeys :: "Key list"
  User :: string

definition Empty :: UserData where
  "Empty = \<lparr>kind = kindEmpty, data = [], extraKeys = [], User = []\<rparr>"

definition MultipartMimeConfig :: "string \<Rightarrow> UserData" where
  "MultipartMimeConfig d = \<lparr>kind = kindMultipartMime, data = d, extraKeys = [], User = []\<rparr>"

definition ContainerLinuxConfig :: "string \<Rightarrow> UserData" where
  "ContainerLinuxConfig d = \<lparr>kind = kindContainerLinuxConfig, data = d, extraKeys = [], User = []\<rparr>"

definition Ignition :: "string \<Rightarrow> UserData" where
  "Ignition d = \<lparr>kind = kindIgnition, data = d, extraKeys = [], User = []\<rparr>"

definition CloudConfig :: "string \<Rightarrow> UserData" where
  "CloudConfig d = \<lparr>kind = kindCloudConfig, data = d, extraKeys = [], User = []\<rparr>"

definition Butane :: "string \<Rightarrow> UserData" where
  "Butane d = \<lparr>kind = kindButane, data = d, extraKeys = [], User = []\<rparr>"

definition Script :: "string \<Rightarrow> UserData" where
  "Script d = \<lparr>kind = kindScript, data = d, extraKeys = [], User = []\<rparr>"

text \<open>
  \<open>Subst\<close> and \<open>AddKey\<close> copy the struct behind the receiver and return the changed
  copy; the receiver itself is not written.
\<close>

definition Subst :: "lib \<Rightarrow> string \<Rightarrow> string \<Rightarrow> UserData \<Rightarrow> UserData" where
  "Subst L old new u = u\<lparr>data := strings_Replace L (data u) old new\<rparr>"

definition AddKey :: "Key \<Rightarrow> UserData \<Rightarrow> UserData" where
  "AddKey key u = u\<lparr>extraKeys := extraKeys u @ [key]\<rparr>"

definition IsIgnitionCompatible :: "UserData \<Rightarrow> bool" where
  "IsIgnitionCompatible u \<longleftrightarrow>
     kind u = kindIgnition \<or> kind u = kindContainerLinuxConfig \<or> kind u = kindButane"

fun AddSSHKeys :: "UserData \<Rightarrow> Key list \<Rightarrow> UserData" where
  "AddSSHKeys userdata [] = userdata"
| "AddSSHKeys userdata (key # keys) = AddSSHKeys (AddKey key userdata) keys"

section \<open>Render\<close>

text \<open>
  The parsers and translators that \<open>Render\<close> calls are parameters as well. An Ignition
  parser returns a configuration, a report and an error; \<open>cci.NewCloudConfig\<close> a
  pointer and an error; \<open>ct.Parse\<close> a configuration, its syntax tree (both opaque here)
  and a report; \<open>ct.Convert\<close> a v2.3 configuration and a report;
  \<open>butane.TranslateBytes\<close> the Ignition bytes, a report and an error. What \<open>Render\<close>
  writes to the package log is not modelled.
\<close>

record ('clc, 'ast) parsers =
  v1_Parse :: "string \<Rightarrow> ConfigV1 \<times> Report \<times> go_error option"
  v2_Parse :: "string \<Rightarrow> ConfigV2 \<times> Report \<times> go_error option"
  v21_Parse :: "string \<Rightarrow> ConfigV21 \<times> Report \<times> go_error option"
  v22_Parse :: "string \<Rightarrow> ConfigV22 \<times> Report \<times> go_error option"
  v23_Parse :: "string \<Rightarrow> ConfigV23 \<times> Report \<times> go_error option"
  v3_Parse :: "string \<Rightarrow> ConfigV3 \<times> Report \<times> go_error option"
  v31_Parse :: "string \<Rightarrow> ConfigV31 \<times> Report \<times> go_error option"
  v32_Parse :: "string \<Rightarrow> ConfigV32 \<times> Report \<times> go_error option"
  v33_Parse :: "string \<Rightarrow> ConfigV33 \<times> Report \<times> go_error option"
  cci_NewCloudConfig :: "string \<Rightarrow> CloudConfig option \<times> go_error option"
  ct_Parse :: "string \<Rightarrow> 'clc \<times> 'ast \<times> Report"
  ct_Convert :: "'clc \<Rightarrow> string \<Rightarrow> 'ast \<Rightarrow> ConfigV23 \<times> Report"
  butane_TranslateBytes :: "string \<Rightarrow> string \<times> Report \<times> go_error option"

text \<open>
  The closure \<open>renderIgnition\<close> of \<open>Render\<close>. It reads \<open>u.data\<close> when it is called and
  writes one slot of \<open>c\<close> on success; \<open>Inl\<close> is the error it returns. After the last
  parser the error in hand is returned, which at that point is the unknown-version
  error of the v3 library.
\<close>

definition renderIgnition :: "('clc, 'ast) parsers \<Rightarrow> UserData \<Rightarrow> Conf \<Rightarrow> go_error + Conf" where
  "renderIgnition P u c =
     (let (ignc1, report, err) = v1_Parse P (data u) in
      if err = None then Inr (c\<lparr>ignitionV1 := Some ignc1\<rparr>)
      else if err \<noteq> Some ErrUnknownVersion then Inl (the err)
      else
      let (ignc2, report, err) = v2_Parse P (data u) in
      if err = None then Inr (c\<lparr>ignitionV2 := Some ignc2\<rparr>)
      else if err \<noteq> Some ErrUnknownVersion then Inl (the err)
      else
      let (ignc21, report, err) = v21_Parse P (data u) in
      if err = None then Inr (c\<lparr>ignitionV21 := Some ignc21\<rparr>)
      else if err \<noteq> Some ErrUnknownVersion then Inl (the err)
      else
      let (ignc22, report, err) = v22_Parse P (data u) in
      if err = None then Inr (c\<lparr>ignitionV22 := Some ignc22\<rparr>)
      else if err \<noteq> Some ErrUnknownVersion then Inl (the err)
      else
      let (ignc23, report, err) = v23_Parse P (data u) in
      if err = None then Inr (c\<lparr>ignitionV23 := Some ignc23\<rparr>)
      else if err \<noteq> Some ErrUnknownVersion then Inl (the err)
      else
      let (ignc3, report3, err) = v3_Parse P (data u) in
      if err = None then Inr (c\<lparr>ignitionV3 := Some ignc3\<rparr>)
      else if err \<noteq> Some Err3UnknownVersion then Inl (the err)
      else
      let (ignc31, report31, err) = v31_Parse P (data u) in
      if err = None then Inr (c\<lparr>ignitionV31 := Some ignc31\<rparr>)
      else if err \<noteq> Some Err3UnknownVersion then Inl (the err)
      else
      let (ignc32, report32, err) = v32_Parse P (data u) in
      if err = None then Inr (c\<lparr>ignitionV32 := Some ignc32\<rparr>)
      else if err \<noteq> Some Err3UnknownVersion then Inl (the err)
      else
      let (ignc33, report33, err) = v33_Parse P (data u) in
      if err = None then Inr (c\<lparr>ignitionV33 := Some ignc33\<rparr>)
      else if err \<noteq> Some Err3UnknownVersion then Inl (the err)
      else Inl (the err))"

datatype 'a outcome = Panicked fault | Failed go_error | Returned 'a

text \<open>
  \<open>Render\<close> has a pointer receiver, so the model returns the \<open>UserData\<close> behind the
  receiver after the call next to the outcome. \<open>renderKind\<close> is the \<open>switch\<close> over the
  kind, applied to the fresh \<open>Conf\<close>; the Butane branch assigns \<open>u.data\<close> and \<open>u.kind\<close>
  before it calls \<open>renderIgnition\<close>.
\<close>

definition renderKind :: "('clc, 'ast) parsers \<Rightarrow> string \<Rightarrow> UserData \<Rightarrow> Conf \<Rightarrow> UserData \<times> Conf outcome" where
  "renderKind P ctPlatform u c =
     (if kind u = kindEmpty then (u, Returned c)
      else if kind u = kindCloudConfig then
        (let (cc, err) = cci_NewCloudConfig P (data u) in
         if err \<noteq> None then (u, Failed (the err))
         else (u, Returned (c\<lparr>cloudconfig := cc\<rparr>)))
      else if kind u = kindScript then (u, Returned (c\<lparr>script := data u\<rparr>))
      else if kind u = kindMultipartMime then (u, Returned (c\<lparr>multipartMime := data u\<rparr>))
      else if kind u = kindIgnition then
        (case renderIgnition P u c of
           Inl err \<Rightarrow> (u, Failed err)
         | Inr c' \<Rightarrow> (u, Returned c'))
      else if kind u = kindContainerLinuxConfig then
        (let (clc, ast, report) = ct_Parse P (data u) in
         if report_IsFatal report then (u, Failed (ErrParsingCLC report))
         else
         let (ignc, report) = ct_Convert P clc ctPlatform ast in
         if report_IsFatal report then (u, Failed (ErrRenderingCLC ctPlatform report))
         else (u, Returned (c\<lparr>ignitionV23 := Some ignc\<rparr>)))
      else if kind u = kindButane then
        (let (ignc, report, err) = butane_TranslateBytes P (data u) in
         if err \<noteq> None then (u, Failed (ErrConvertingButane (the err)))
         else if report_IsFatal report then (u, Failed (ErrConvertingButaneReport report))
         else
         let u' = u\<lparr>data := ignc, kind := kindIgnition\<rparr> in
         (case renderIgnition P u' c of
            Inl err \<Rightarrow> (u', Failed err)
          | Inr c' \<Rightarrow> (u', Returned c')))
      else (u, Panicked PanicInvalidKind))"

definition newConf :: "string \<Rightarrow> Conf" where
  "newConf name =
     \<lparr>ignitionV1 = None, ignitionV2 = None, ignitionV21 = None, ignitionV22 = None,
      ignitionV23 = None, ignitionV3 = None, ignitionV31 = None, ignitionV32 = None,
      ignitionV33 = None, cloudconfig = None, script = [], multipartMime = [], user = name\<rparr>"

definition Render :: "lib \<Rightarrow> ('clc, 'ast) parsers \<Rightarrow> string \<Rightarrow> UserData \<Rightarrow> UserData \<times> Conf outcome" where
  "Render L P ctPlatform u =
     (case renderKind P ctPlatform u (newConf (User u)) of
        (u', Returned c) \<Rightarrow>
          if length (extraKeys u') > 0
          then (case CopyKeys L (extraKeys u') c of
                  Inl f \<Rightarrow> (u', Panicked f)
                | Inr c' \<Rightarrow> (u', Returned c'))
          else (u', Returned c)
      | (u', Failed err) \<Rightarrow> (u', Failed err)
      | (u', Panicked f) \<Rightarrow> (u', Panicked f))"

section \<open>Classification helpers of the v2.2 parser (cloudinit.go)\<close>

text \<open>
  \<open>gzip.NewReader\<close> (\<open>Inl\<close> is its error), \<open>ioutil.ReadAll\<close> (the bytes read and an
  error), \<open>ReadMIMEHeader\<close> of net/textproto and \<open>Get\<close> of its header are parameters;
  the reader and the header are opaque. Byte slices and strings are both \<open>string\<close>.
\<close>

record ('r, 'h) cloudinit_lib =
  gzip_NewReader :: "string \<Rightarrow> go_error + 'r"
  ioutil_ReadAll :: "'r \<Rightarrow> string \<times> go_error option"
  textproto_ReadMIMEHeader :: "string \<Rightarrow> 'h \<times> go_error option"
  header_Get :: "'h \<Rightarrow> string \<Rightarrow> string"

definition decompressIfGzipped :: "('r, 'h) cloudinit_lib \<Rightarrow> string \<Rightarrow> string" where
  "decompressIfGzipped G d =
     (case gzip_NewReader G d of
        Inr reader \<Rightarrow>
          (let (uncompressedData, err) = ioutil_ReadAll G reader in
           if err = None then uncompressedData else d)
      | Inl err \<Rightarrow> d)"

fun strings_HasPrefix :: "string \<Rightarrow> string \<Rightarrow> bool" where
  "strings_HasPrefix s [] = True"
| "strings_HasPrefix [] (p # ps) = False"
| "strings_HasPrefix (x # xs) (p # ps) = (x = p \<and> strings_HasPrefix xs ps)"

fun strings_Contains :: "string \<Rightarrow> string \<Rightarrow> bool" where
  "strings_Contains [] substr = (substr = [])"
| "strings_Contains (x # xs) substr =
     (strings_HasPrefix (x # xs) substr \<or> strings_Contains xs substr)"

text \<open>\<open>strings.SplitN(s, "\n", 2)[0]\<close>: the text before the first newline, or all of it.\<close>

definition firstLine :: "string \<Rightarrow> string" where
  "firstLine s = takeWhile (\<lambda>ch. ch \<noteq> CHR 0x0A) s"

text \<open>
  \<open>strings.TrimRightFunc(header, unicode.IsSpace)\<close> decodes the last rune of the UTF-8
  text again and again. The white space of \<open>unicode.IsSpace\<close> is: the bytes 09 to 0D
  and 20; U+0085 and U+00A0 (C2 85, C2 A0); U+1680 (E1 9A 80); U+2000 to U+200A, U+2028,
  U+2029 and U+202F (E2 80 and one of 80 to 8A, A8, A9, AF); U+205F (E2 81 9F); U+3000
  (E3 80 80). Any other ending, an invalid encoding too, stops the trimming.
  \<open>trimSpaceRev\<close> works on the reversed text.
\<close>

definition asciiSpace :: "char \<Rightarrow> bool" where
  "asciiSpace ch \<longleftrightarrow> ch \<in> set [CHR 0x09, CHR 0x0A, CHR 0x0B, CHR 0x0C, CHR 0x0D, CHR 0x20]"

definition spaceRune2 :: "char \<Rightarrow> char \<Rightarrow> bool" where
  "spaceRune2 b1 b2 \<longleftrightarrow> b1 = CHR 0xC2 \<and> (b2 = CHR 0x85 \<or> b2 = CHR 0xA0)"

definition spaceRune3 :: "char \<Rightarrow> char \<Rightarrow> char \<Rightarrow> bool" where
  "spaceRune3 b1 b2 b3 \<longleftrightarrow>
     (b1 = CHR 0xE1 \<and> b2 = CHR 0x9A \<and> b3 = CHR 0x80) \<or>
     (b1 = CHR 0xE2 \<and> b2 = CHR 0x80 \<and>
        b3 \<in> set [CHR 0x80, CHR 0x81, CHR 0x82, CHR 0x83, CHR 0x84, CHR 0x85, CHR 0x86,
                  CHR 0x87, CHR 0x88, CHR 0x89, CHR 0x8A, CHR 0xA8, CHR 0xA9, CHR 0xAF]) \<or>
     (b1 = CHR 0xE2 \<and> b2 = CHR 0x81 \<and> b3 = CHR 0x9F) \<or>
     (b1 = CHR 0xE3 \<and> b2 = CHR 0x80 \<and> b3 = CHR 0x80)"

fun trimSpaceRev :: "string \<Rightarrow> string" where
  "trimSpaceRev (a # b # c # r) =
     (if asciiSpace a then trimSpaceRev (b # c # r)
      else if spaceRune2 b a then trimSpaceRev (c # r)
      else if spaceRune3 c b a then trimSpaceRev r
      else a # b # c # r)"
| "trimSpaceRev [a, b] =
     (if asciiSpace a then trimSpaceRev [b]
      else if spaceRune2 b a then []
      else [a, b])"
| "trimSpaceRev [a] = (if asciiSpace a then [] else [a])"
| "trimSpaceRev [] = []"

definition TrimRightSpace :: "string \<Rightarrow> string" where
  "TrimRightSpace s = rev (trimSpaceRev (rev s))"

definition isMultipartMime :: "('r, 'h) cloudinit_lib \<Rightarrow> string \<Rightarrow> bool" where
  "isMultipartMime G userdata =
     (let userdata = decompressIfGzipped G userdata;
          (header, err) = textproto_ReadMIMEHeader G userdata
      in if err \<noteq> None then False
         else strings_Contains (header_Get G header ''Content-Type'') ''multipart/mixed'')"

definition isCloudConfig :: "('r, 'h) cloudinit_lib \<Rightarrow> string \<Rightarrow> bool" where
  "isCloudConfig G userdata =
     (let header = firstLine (decompressIfGzipped G userdata);
          header = TrimRightSpace header
      in header = ''#cloud-config'')"

definition isScript :: "('r, 'h) cloudinit_lib \<Rightarrow> string \<Rightarrow> bool" where
  "isScript G userdata =
     (let header = firstLine (decompressIfGzipped G userdata)
      in strings_HasPrefix header ''#!'')"

section \<open>Populated variants\<close>

text \<open>
  The source has no variant tag: a variant is populated when its slot is non-nil (its
  text non-empty, for the script and the multipart document). \<open>sole c v\<close> says that
  \<open>v\<close> is the one populated variant of \<open>c\<close>, \<open>unpopulated c\<close> that there is none.
\<close>

datatype variant =
  V1 | V2 | V21 | V22 | V23 | V3 | V31 | V32 | V33 | CloudCfg | ScriptV | MultipartV

fun populated :: "Conf \<Rightarrow> variant \<Rightarrow> bool" where
  "populated c V1 = (ignitionV1 c \<noteq> None)"
| "populated c V2 = (ignitionV2 c \<noteq> None)"
| "populated c V21 = (ignitionV21 c \<noteq> None)"
| "populated c V22 = (ignitionV22 c \<noteq> None)"
| "populated c V23 = (ignitionV23 c \<noteq> None)"
| "populated c V3 = (ignitionV3 c \<noteq> None)"
| "populated c V31 = (ignitionV31 c \<noteq> None)"
| "populated c V32 = (ignitionV32 c \<noteq> None)"
| "populated c V33 = (ignitionV33 c \<noteq> None)"
| "populated c CloudCfg = (cloudconfig c \<noteq> None)"
| "populated c ScriptV = (script c \<noteq> [])"
| "populated c MultipartV = (multipartMime c \<noteq> [])"

definition variants :: "variant list" where
  "variants = [V1, V2, V21, V22, V23, V3, V31, V32, V33, CloudCfg, ScriptV, MultipartV]"

definition sole :: "Conf \<Rightarrow> variant \<Rightarrow> bool" where
  "sole c v \<longleftrightarrow> filter (populated c) variants = [v]"

definition unpopulated :: "Conf \<Rightarrow> bool" where
  "unpopulated c \<longleftrightarrow> filter (populated c) variants = []"

section \<open>The version cascade in the words of the specification\<close>

text \<open>
  One attempt of the cascade either accepts the payload and fills a slot, or answers
  that its parser does not know the version, or rejects the payload with another error.
  \<open>spec_cascade\<close> takes the attempts in order: the first acceptance stops the cascade,
  an unknown version moves on, a rejection aborts, and when every attempt is used up the
  cascade gives up with the error left over.
\<close>

datatype attempt = Accepted "Conf \<Rightarrow> Conf" | NotRecognized | Rejected go_error

fun spec_cascade :: "go_error \<Rightarrow> attempt list \<Rightarrow> Conf \<Rightarrow> go_error + Conf" where
  "spec_cascade giveUp [] c = Inl giveUp"
| "spec_cascade giveUp (Accepted populate # rest) c = Inr (populate c)"
| "spec_cascade giveUp (NotRecognized # rest) c = spec_cascade giveUp rest c"
| "spec_cascade giveUp (Rejected err # rest) c = Inl err"

text \<open>
  The attempt made of a parser's answer: \<open>unknown\<close> is the unknown-version error of the
  parser's library, \<open>populate\<close> stores the parsed configuration in the version's slot.
\<close>

definition attempt_of :: "go_error \<Rightarrow> ('cfg \<Rightarrow> Conf \<Rightarrow> Conf) \<Rightarrow> 'cfg \<times> Report \<times> go_error option \<Rightarrow> attempt" where
  "attempt_of unknown populate answer =
     (case snd (snd answer) of
        None \<Rightarrow> Accepted (populate (fst answer))
      | Some err \<Rightarrow> if err = unknown then NotRecognized else Rejected err)"

definition cascade_attempts :: "('clc, 'ast) parsers \<Rightarrow> string \<Rightarrow> attempt list" where
  "cascade_attempts P d =
     [attempt_of ErrUnknownVersion (\<lambda>g c. c\<lparr>ignitionV1 := Some g\<rparr>) (v1_Parse P d),
      attempt_of ErrUnknownVersion (\<lambda>g c. c\<lparr>ignitionV2 := Some g\<rparr>) (v2_Parse P d),
      attempt_of ErrUnknownVersion (\<lambda>g c. c\<lparr>ignitionV21 := Some g\<rparr>) (v21_Parse P d),
      attempt_of ErrUnknownVersion (\<lambda>g c. c\<lparr>ignitionV22 := Some g\<rparr>) (v22_Parse P d),
      attempt_of ErrUnknownVersion (\<lambda>g c. c\<lparr>ignitionV23 := Some g\<rparr>) (v23_Parse P d),
      attempt_of Err3UnknownVersion (\<lambda>g c. c\<lparr>ignitionV3 := Some g\<rparr>) (v3_Parse P d),
      attempt_of Err3UnknownVersion (\<lambda>g c. c\<lparr>ignitionV31 := Some g\<rparr>) (v31_Parse P d),
      attempt_of Err3UnknownVersion (\<lambda>g c. c\<lparr>ignitionV32 := Some g\<rparr>) (v32_Parse P d),
      attempt_of Err3UnknownVersion (\<lambda>g c. c\<lparr>ignitionV33 := Some g\<rparr>) (v33_Parse P d)]"

section \<open>Instances of the library services\<close>

text \<open>
  Modelled from the spec: the merge primitive of the Ignition library, which the
  repository calls and does not contain. Section 4.5 of the specification gives its
  contract: scalar fields take the overlay's value, repeating fields (files, units,
  users) are concatenated, never deduplicated or reordered.
\<close>

definition spec_Merge :: "ConfigV3 \<Rightarrow> ConfigV3 \<Rightarrow> ConfigV3" where
  "spec_Merge stored overlay =
     \<lparr>v3_Version = v3_Version overlay,
      v3_Files = v3_Files stored @ v3_Files overlay,
      v3_Units = v3_Units stored @ v3_Units overlay,
      v3_Users = v3_Users stored @ v3_Users overlay\<rparr>"

text \<open>The part of that contract that \<open>AddFile\<close> relies on, for any merge functions.\<close>

definition merge_appends_files :: "lib \<Rightarrow> bool" where
  "merge_appends_files L \<longleftrightarrow>
     (\<forall>a b. v3_Files (v3_Merge L a b) = v3_Files a @ v3_Files b) \<and>
     (\<forall>a b. v3_Files (v31_Merge L a b) = v3_Files a @ v3_Files b) \<and>
     (\<forall>a b. v3_Files (v32_Merge L a b) = v3_Files a @ v3_Files b) \<and>
     (\<forall>a b. v3_Files (v33_Merge L a b) = v3_Files a @ v3_Files b)"


text \<open>
  The theorems below hold for all library services. To run the model on concrete
  inputs, \<open>sample_lib\<close> is one instance: it merges by \<open>spec_Merge\<close>, writes a data URL
  as the prefix \<open>data:,\<close> before the content, parses every URL, replaces every
  occurrence of a non-empty \<open>old\<close> from the left (and nothing for an empty \<open>old\<close>),
  prints a key as format, blob and comment, and serialises to fixed placeholders.
\<close>

function sample_Replace :: "string \<Rightarrow> string \<Rightarrow> string \<Rightarrow> string" where
  "sample_Replace s old new =
     (if s = [] then []
      else if old \<noteq> [] \<and> strings_HasPrefix s old
      then new @ sample_Replace (drop (length old) s) old new
      else hd s # sample_Replace (tl s) old new)"
  by pat_completeness auto
termination
  by (relation "measure (\<lambda>(s, old, new). length s)") auto

declare sample_Replace.simps [simp del]

definition sample_key_String :: "Key \<Rightarrow> string" where
  "sample_key_String k =
     key_Format k @ '' '' @ key_Blob k @ (if key_Comment k = [] then [] else '' '' @ key_Comment k)"

definition sample_lib :: lib where
  "sample_lib =
     \<lparr>v3_Merge = spec_Merge, v31_Merge = spec_Merge, v32_Merge = spec_Merge,
      v33_Merge = spec_Merge,
      dataurl_EncodeBytes = (\<lambda>contents. ''data:,'' @ contents),
      url_Parse = (\<lambda>s. Inr (ParsedURL s)),
      strings_Replace = sample_Replace,
      key_String = sample_key_String,
      json_Marshal_V1 = (\<lambda>d. ''{v1}''), json_Marshal_V2 = (\<lambda>d. ''{v2.0}''),
      json_Marshal_V21 = (\<lambda>d. ''{v2.1}''), json_Marshal_V22 = (\<lambda>d. ''{v2.x}''),
      json_Marshal_V3 = (\<lambda>d. ''{v3.x}''), cloudconfig_String = (\<lambda>d. ''#cloud-config'')\<rparr>"

text \<open>
  A parser suite in which the parser of a version accepts exactly the payload whose
  version field names that version, with an otherwise empty configuration, and answers
  the unknown-version error of its library to everything else.
\<close>

definition version_payload :: "string \<Rightarrow> string" where
  \<open>version_payload version = ''{"ignition":{"version":"'' @ version @ ''"}}''\<close>

definition noReport :: Report where
  "noReport = \<lparr>report_IsFatal = False, report_Entries = []\<rparr>"

definition sample_Parse :: "string \<Rightarrow> go_error \<Rightarrow> 'cfg \<Rightarrow> string \<Rightarrow> 'cfg \<times> Report \<times> go_error option" where
  "sample_Parse version unknown blank d =
     (if d = version_payload version then (blank, noReport, None)
      else (blank, noReport, Some unknown))"

definition emptyV3 :: "string \<Rightarrow> ConfigV3" where
  "emptyV3 version = \<lparr>v3_Version = version, v3_Files = [], v3_Units = [], v3_Users = []\<rparr>"

definition emptyV22 :: ConfigV22 where
  "emptyV22 = \<lparr>v22_Files = [], v22_Units = [], v22_Users = []\<rparr>"

definition sample_parsers :: "(unit, unit) parsers" where
  "sample_parsers =
     \<lparr>v1_Parse = sample_Parse ''1'' ErrUnknownVersion
         \<lparr>v1_Filesystems = [], v1_Units = [], v1_Users = []\<rparr>,
      v2_Parse = sample_Parse ''2.0.0'' ErrUnknownVersion
         \<lparr>v2_Files = [], v2_Units = [], v2_Users = []\<rparr>,
      v21_Parse = sample_Parse ''2.1.0'' ErrUnknownVersion
         \<lparr>v21_Files = [], v21_Units = [], v21_Users = []\<rparr>,
      v22_Parse = sample_Parse ''2.2.0'' ErrUnknownVersion emptyV22,
      v23_Parse = sample_Parse ''2.3.0'' ErrUnknownVersion emptyV22,
      v3_Parse = sample_Parse ''3.0.0'' Err3UnknownVersion (emptyV3 ''3.0.0''),
      v31_Parse = sample_Parse ''3.1.0'' Err3UnknownVersion (emptyV3 ''3.1.0''),
      v32_Parse = sample_Parse ''3.2.0'' Err3UnknownVersion (emptyV3 ''3.2.0''),
      v33_Parse = sample_Parse ''3.3.0'' Err3UnknownVersion (emptyV3 ''3.3.0''),
      cci_NewCloudConfig = (\<lambda>d. (Some \<lparr>cc_WriteFiles = [], cc_Units = [], cc_SSHAuthorizedKeys = []\<rparr>, None)),
      ct_Parse = (\<lambda>d. ((), (), noReport)),
      ct_Convert = (\<lambda>clc platform ast. (emptyV22, noReport)),
      butane_TranslateBytes = (\<lambda>d. (version_payload ''3.3.0'', noReport, None))\<rparr>"

text \<open>
  A stand-in for compress/gzip and net/textproto: a stream is the two magic bytes, the
  payload as it is and a closing zero byte; a stream without the magic bytes has no
  reader, one without the closing byte fails while it is read. A header is read off a
  first line that starts with \<open>Content-Type: \<close>.
\<close>

definition sample_cloudinit_lib :: "(string, string) cloudinit_lib" where
  "sample_cloudinit_lib =
     \<lparr>gzip_NewReader = (\<lambda>d. if strings_HasPrefix d [CHR 0x1F, CHR 0x8B] then Inr (drop 2 d)
                              else Inl (ErrLibrary ''gzip: invalid header'')),
      ioutil_ReadAll = (\<lambda>r. if r \<noteq> [] \<and> last r = CHR 0x00 then (butlast r, None)
                              else (r, Some (ErrLibrary ''unexpected EOF''))),
      textproto_ReadMIMEHeader = (\<lambda>d. if strings_HasPrefix d ''Content-Type: ''
                              then (drop 14 (firstLine d), None)
                              else ([], Some (ErrLibrary ''malformed MIME header line''))),
      header_Get = (\<lambda>h key. if key = ''Content-Type'' then h else [])\<rparr>"

text \<open>A key as an SSH agent would hand it over.\<close>

definition someKey :: Key where
  "someKey = \<lparr>key_Format = ''ssh-ed25519'', key_Blob = ''AAAAC3Nz'', key_Comment = ''core@host''\<rparr>"

text \<open>A v1 document whose one filesystem is on a device other than the root device.\<close>

definition v1_on_sda :: Conf where
  "v1_on_sda = (newConf ''core'')\<lparr>ignitionV1 := Some
     \<lparr>v1_Filesystems = [\<lparr>fs1_Files = [], fs1_Create = None, fs1_Format = ''ext4'',
                          fs1_Device = ''/dev/sda1''\<rparr>],
      v1_Units = [], v1_Users = []\<rparr>\<rparr>"



text \<open>The same parser suite, except that its v2.0 parser rejects every payload as malformed.\<close>

definition rejecting_parsers :: "(unit, unit) parsers" where
  "rejecting_parsers = sample_parsers\<lparr>v2_Parse :=
     (\<lambda>d. (\<lparr>v2_Files = [], v2_Units = [], v2_Users = []\<rparr>, noReport, Some (ErrLibrary ''syntax error'')))\<rparr>"

section \<open>Facts about populated variants\<close>

lemma variant_listed: "w \<in> set variants"
  by (cases w) (simp_all add: variants_def)

lemma sole_populated: "sole c v \<Longrightarrow> populated c w = (w = v)"
proof -
  assume s: "sole c v"
  have "set (filter (populated c) variants) = {v}"
    using s by (simp add: sole_def)
  then have "{x \<in> set variants. populated c x} = {v}" by simp
  then have "(w \<in> set variants \<and> populated c w) = (w = v)" by blast
  then show ?thesis by (simp add: variant_listed)
qed

lemma sole_slots:
  assumes "sole c v"
  shows "(ignitionV1 c = None) = (v \<noteq> V1)" "(ignitionV2 c = None) = (v \<noteq> V2)"
    "(ignitionV21 c = None) = (v \<noteq> V21)" "(ignitionV22 c = None) = (v \<noteq> V22)"
    "(ignitionV23 c = None) = (v \<noteq> V23)" "(ignitionV3 c = None) = (v \<noteq> V3)"
    "(ignitionV31 c = None) = (v \<noteq> V31)" "(ignitionV32 c = None) = (v \<noteq> V32)"
    "(ignitionV33 c = None) = (v \<noteq> V33)" "(cloudconfig c = None) = (v \<noteq> CloudCfg)"
    "(script c = []) = (v \<noteq> ScriptV)" "(multipartMime c = []) = (v \<noteq> MultipartV)"
  using sole_populated [OF assms, of V1] sole_populated [OF assms, of V2]
    sole_populated [OF assms, of V21] sole_populated [OF assms, of V22]
    sole_populated [OF assms, of V23] sole_populated [OF assms, of V3]
    sole_populated [OF assms, of V31] sole_populated [OF assms, of V32]
    sole_populated [OF assms, of V33] sole_populated [OF assms, of CloudCfg]
    sole_populated [OF assms, of ScriptV] sole_populated [OF assms, of MultipartV]
  by auto

lemma unpopulated_slots:
  assumes "unpopulated c"
  shows "ignitionV1 c = None" "ignitionV2 c = None" "ignitionV21 c = None"
    "ignitionV22 c = None" "ignitionV23 c = None" "ignitionV3 c = None"
    "ignitionV31 c = None" "ignitionV32 c = None" "ignitionV33 c = None"
    "cloudconfig c = None" "script c = []" "multipartMime c = []"
proof -
  have "\<not> populated c w" for w
  proof -
    have "set (filter (populated c) variants) = {}"
      using assms by (simp add: unpopulated_def)
    then show ?thesis using variant_listed [of w] by auto
  qed
  from this [of V1] this [of V2] this [of V21] this [of V22] this [of V23] this [of V3]
    this [of V31] this [of V32] this [of V33] this [of CloudCfg] this [of ScriptV]
    this [of MultipartV]
  show "ignitionV1 c = None" "ignitionV2 c = None" "ignitionV21 c = None"
    "ignitionV22 c = None" "ignitionV23 c = None" "ignitionV3 c = None"
    "ignitionV31 c = None" "ignitionV32 c = None" "ignitionV33 c = None"
    "cloudconfig c = None" "script c = []" "multipartMime c = []"
    by simp_all
qed

section \<open>AddSystemdUnitDropin on a v3.1 document\<close>

text \<open>
  C1. The claim: on a document whose sole populated variant is v3.1,
  \<open>AddSystemdUnitDropin\<close> runs the v3.1 routine and folds the drop-in into the stored
  v3.1 document without faulting. The code does not: its branch for a non-nil
  \<open>ignitionV31\<close> calls \<open>addSystemdDropinV3\<close>, whose \<open>MergeV3\<close> dereferences the nil
  \<open>ignitionV3\<close> slot. On every such document, for every service, drop-in and library,
  the call ends in the nil-pointer panic.
\<close>

theorem AddSystemdUnitDropin_v31_nil_dereference:
  assumes "sole c V31"
  shows "AddSystemdUnitDropin L service name contents c = Inl NilPointerDereference"
  using sole_slots [OF assms]
  by (simp add: AddSystemdUnitDropin_def addSystemdDropinV3_def MergeV3_def)

theorem AddSystemdUnitDropin_v31_nil_dereference_witness:
  "sole ((newConf ''core'')\<lparr>ignitionV31 := Some (emptyV3 ''3.1.0'')\<rparr>) V31 \<and>
   AddSystemdUnitDropin sample_lib ''docker.service'' ''10-override.conf'' ''X''
     ((newConf ''core'')\<lparr>ignitionV31 := Some (emptyV3 ''3.1.0'')\<rparr>) = Inl NilPointerDereference"
proof -
  have s: "sole ((newConf ''core'')\<lparr>ignitionV31 := Some (emptyV3 ''3.1.0'')\<rparr>) V31"
    by (simp add: sole_def variants_def newConf_def)
  show ?thesis
    using s AddSystemdUnitDropin_v31_nil_dereference [OF s] by simp
qed

section \<open>The gzip step of the classification checks\<close>

lemma decompress_valid:
  "gzip_NewReader G b = Inr reader \<Longrightarrow> ioutil_ReadAll G reader = (plain, None) \<Longrightarrow>
   decompressIfGzipped G b = plain"
  by (simp add: decompressIfGzipped_def)

lemma decompress_invalid:
  "(\<exists>err. gzip_NewReader G b = Inl err) \<or>
   (\<exists>reader part err. gzip_NewReader G b = Inr reader \<and> ioutil_ReadAll G reader = (part, Some err)) \<Longrightarrow>
   decompressIfGzipped G b = b"
  by (auto simp add: decompressIfGzipped_def)

lemma checks_after_decompress:
  "decompressIfGzipped G b = d \<Longrightarrow>
   isMultipartMime G b =
     (snd (textproto_ReadMIMEHeader G d) = None \<and>
      strings_Contains (header_Get G (fst (textproto_ReadMIMEHeader G d)) ''Content-Type'') ''multipart/mixed'') \<and>
   isCloudConfig G b = (TrimRightSpace (firstLine d) = ''#cloud-config'') \<and>
   isScript G b = strings_HasPrefix (firstLine d) ''#!''"
  by (auto simp add: isMultipartMime_def isCloudConfig_def isScript_def Let_def split: prod.splits)

text \<open>
  C8. For every byte sequence \<open>b\<close> the gzip step returns bytes, whatever the gzip
  library answers: when \<open>b\<close> opens as a gzip stream and reads to its end, the
  decompressed bytes are used and the multipart, cloud-config and script checks all look
  at them; when \<open>b\<close> has no gzip framing, or the stream fails while it is read, the
  bytes \<open>b\<close> are used unchanged and the three checks look at \<open>b\<close>. None of the
  functions has a failure result.
\<close>

theorem gzip_prestep_total_with_fallback:
  "(gzip_NewReader G b = Inr reader \<and> ioutil_ReadAll G reader = (plain, None) \<longrightarrow>
      decompressIfGzipped G b = plain \<and>
      isMultipartMime G b =
        (snd (textproto_ReadMIMEHeader G plain) = None \<and>
         strings_Contains (header_Get G (fst (textproto_ReadMIMEHeader G plain)) ''Content-Type'') ''multipart/mixed'') \<and>
      isCloudConfig G b = (TrimRightSpace (firstLine plain) = ''#cloud-config'') \<and>
      isScript G b = strings_HasPrefix (firstLine plain) ''#!'') \<and>
   ((\<exists>err. gzip_NewReader G b = Inl err) \<or>
    (\<exists>reader part err. gzip_NewReader G b = Inr reader \<and> ioutil_ReadAll G reader = (part, Some err)) \<longrightarrow>
      decompressIfGzipped G b = b \<and>
      isMultipartMime G b =
        (snd (textproto_ReadMIMEHeader G b) = None \<and>
         strings_Contains (header_Get G (fst (textproto_ReadMIMEHeader G b)) ''Content-Type'') ''multipart/mixed'') \<and>
      isCloudConfig G b = (TrimRightSpace (firstLine b) = ''#cloud-config'') \<and>
      isScript G b = strings_HasPrefix (firstLine b) ''#!'')"
proof (intro conjI impI)
  assume v: "gzip_NewReader G b = Inr reader \<and> ioutil_ReadAll G reader = (plain, None)"
  then have d: "decompressIfGzipped G b = plain"
    using decompress_valid [of G b reader plain] by simp
  show "decompressIfGzipped G b = plain" by (rule d)
  show "isMultipartMime G b =
        (snd (textproto_ReadMIMEHeader G plain) = None \<and>
         strings_Contains (header_Get G (fst (textproto_ReadMIMEHeader G plain)) ''Content-Type'') ''multipart/mixed'')"
    by (rule checks_after_decompress [OF d, THEN conjunct1])
  show "isCloudConfig G b = (TrimRightSpace (firstLine plain) = ''#cloud-config'')"
    by (rule checks_after_decompress [OF d, THEN conjunct2, THEN conjunct1])
  show "isScript G b = strings_HasPrefix (firstLine plain) ''#!''"
    by (rule checks_after_decompress [OF d, THEN conjunct2, THEN conjunct2])
next
  assume i: "(\<exists>err. gzip_NewReader G b = Inl err) \<or>
    (\<exists>reader part err. gzip_NewReader G b = Inr reader \<and> ioutil_ReadAll G reader = (part, Some err))"
  then have d: "decompressIfGzipped G b = b"
    by (rule decompress_invalid)
  show "decompressIfGzipped G b = b" by (rule d)
  show "isMultipartMime G b =
        (snd (textproto_ReadMIMEHeader G b) = None \<and>
         strings_Contains (header_Get G (fst (textproto_ReadMIMEHeader G b)) ''Content-Type'') ''multipart/mixed'')"
    by (rule checks_after_decompress [OF d, THEN conjunct1])
  show "isCloudConfig G b = (TrimRightSpace (firstLine b) = ''#cloud-config'')"
    by (rule checks_after_decompress [OF d, THEN conjunct2, THEN conjunct1])
  show "isScript G b = strings_HasPrefix (firstLine b) ''#!''"
    by (rule checks_after_decompress [OF d, THEN conjunct2, THEN conjunct2])
qed

theorem gzip_prestep_total_with_fallback_witness:
  "gzip_NewReader sample_cloudinit_lib ([CHR 0x1F, CHR 0x8B] @ ''#cloud-config  '' @ [CHR 0x00])
     = Inr (''#cloud-config  '' @ [CHR 0x00]) \<and>
   ioutil_ReadAll sample_cloudinit_lib (''#cloud-config  '' @ [CHR 0x00]) = (''#cloud-config  '', None) \<and>
   decompressIfGzipped sample_cloudinit_lib ([CHR 0x1F, CHR 0x8B] @ ''#cloud-config  '' @ [CHR 0x00])
     = ''#cloud-config  '' \<and>
   isCloudConfig sample_cloudinit_lib ([CHR 0x1F, CHR 0x8B] @ ''#cloud-config  '' @ [CHR 0x00]) \<and>
   gzip_NewReader sample_cloudinit_lib ([CHR 0x1F, CHR 0x8B] @ ''#!/bin/sh'') = Inr ''#!/bin/sh'' \<and>
   ioutil_ReadAll sample_cloudinit_lib ''#!/bin/sh'' = (''#!/bin/sh'', Some (ErrLibrary ''unexpected EOF'')) \<and>
   decompressIfGzipped sample_cloudinit_lib ([CHR 0x1F, CHR 0x8B] @ ''#!/bin/sh'')
     = [CHR 0x1F, CHR 0x8B] @ ''#!/bin/sh'' \<and>
   isScript sample_cloudinit_lib ([CHR 0x1F, CHR 0x8B] @ ''#!/bin/sh'') = False \<and>
   gzip_NewReader sample_cloudinit_lib ''#!/bin/sh'' = Inl (ErrLibrary ''gzip: invalid header'') \<and>
   decompressIfGzipped sample_cloudinit_lib ''#!/bin/sh'' = ''#!/bin/sh'' \<and>
   isScript sample_cloudinit_lib ''#!/bin/sh''"
proof -
  let ?G = sample_cloudinit_lib
  let ?b1 = "[CHR 0x1F, CHR 0x8B] @ ''#cloud-config  '' @ [CHR 0x00]"
  let ?r1 = "''#cloud-config  '' @ [CHR 0x00]"
  let ?b2 = "[CHR 0x1F, CHR 0x8B] @ ''#!/bin/sh''"
  have r1: "gzip_NewReader ?G ?b1 = Inr ?r1"
    by (simp add: sample_cloudinit_lib_def)
  have a1: "ioutil_ReadAll ?G ?r1 = (''#cloud-config  '', None)"
    by (simp add: sample_cloudinit_lib_def)
  have r2: "gzip_NewReader ?G ?b2 = Inr ''#!/bin/sh''"
    by (simp add: sample_cloudinit_lib_def)
  have a2: "ioutil_ReadAll ?G ''#!/bin/sh'' = (''#!/bin/sh'', Some (ErrLibrary ''unexpected EOF''))"
    by (simp add: sample_cloudinit_lib_def)
  have r3: "gzip_NewReader ?G ''#!/bin/sh'' = Inl (ErrLibrary ''gzip: invalid header'')"
    by (simp add: sample_cloudinit_lib_def)
  have t1: "(TrimRightSpace (firstLine ''#cloud-config  '') = ''#cloud-config'') = True"
    by (simp add: TrimRightSpace_def firstLine_def asciiSpace_def spaceRune2_def spaceRune3_def)
  have t2: "strings_HasPrefix (firstLine ?b2) ''#!'' = False"
    by (simp add: firstLine_def)
  have t3: "strings_HasPrefix (firstLine ''#!/bin/sh'') ''#!'' = True"
    by (simp add: firstLine_def)
  note valid = gzip_prestep_total_with_fallback [of ?G ?b1 ?r1 "''#cloud-config  ''",
      THEN conjunct1, THEN mp, OF conjI [OF r1 a1]]
  have i2: "(\<exists>err. gzip_NewReader ?G ?b2 = Inl err) \<or>
      (\<exists>reader part err. gzip_NewReader ?G ?b2 = Inr reader \<and> ioutil_ReadAll ?G reader = (part, Some err))"
    using r2 a2 by (intro disjI2 exI conjI)
  note corrupt = gzip_prestep_total_with_fallback [of ?G ?b2, THEN conjunct2, THEN mp, OF i2]
  have i3: "(\<exists>err. gzip_NewReader ?G ''#!/bin/sh'' = Inl err) \<or>
      (\<exists>reader part err. gzip_NewReader ?G ''#!/bin/sh'' = Inr reader \<and> ioutil_ReadAll ?G reader = (part, Some err))"
    using r3 by (intro disjI1 exI)
  note plain = gzip_prestep_total_with_fallback [of ?G "''#!/bin/sh''", THEN conjunct2, THEN mp, OF i3]
  have c1: "isCloudConfig ?G ?b1"
    using valid [THEN conjunct2, THEN conjunct2, THEN conjunct1] by (simp only: t1)
  have c2: "isScript ?G ?b2 = False"
    using corrupt [THEN conjunct2, THEN conjunct2, THEN conjunct2] by (simp only: t2)
  have c3: "isScript ?G ''#!/bin/sh''"
    using plain [THEN conjunct2, THEN conjunct2, THEN conjunct2] by (simp only: t3)
  show ?thesis
    by (intro conjI) (rule r1, rule a1, rule valid [THEN conjunct1], rule c1, rule r2, rule a2,
      rule corrupt [THEN conjunct1], rule c2, rule r3, rule plain [THEN conjunct1], rule c3)
qed

section \<open>The multipart document and the emptiness check\<close>

text \<open>
  C9. On a \<open>Conf\<close> whose only populated slot is the multipart document, \<open>IsEmpty\<close> is
  true, while \<open>String\<close> and \<open>Bytes\<close> return the multipart text, which is not empty.
\<close>

theorem IsEmpty_true_on_multipart_only:
  assumes "sole c MultipartV"
  shows "IsEmpty c \<and> String L c = multipartMime c \<and> Bytes L c = multipartMime c \<and> multipartMime c \<noteq> []"
  using sole_slots [OF assms]
  by (simp add: IsEmpty_def IsIgnition_def String_def Bytes_def)

theorem IsEmpty_true_on_multipart_only_witness:
  "sole ((newConf ''core'')\<lparr>multipartMime := ''Content-Type: multipart/mixed''\<rparr>) MultipartV \<and>
   IsEmpty ((newConf ''core'')\<lparr>multipartMime := ''Content-Type: multipart/mixed''\<rparr>) \<and>
   String sample_lib ((newConf ''core'')\<lparr>multipartMime := ''Content-Type: multipart/mixed''\<rparr>)
     = ''Content-Type: multipart/mixed''"
proof -
  have s: "sole ((newConf ''core'')\<lparr>multipartMime := ''Content-Type: multipart/mixed''\<rparr>) MultipartV"
    by (simp add: sole_def variants_def newConf_def)
  show ?thesis
    using s IsEmpty_true_on_multipart_only [OF s, of sample_lib] by simp
qed

section \<open>Pending keys of empty and multipart user data\<close>

lemmas kind_defs =
  kindEmpty_def kindCloudConfig_def kindIgnition_def kindContainerLinuxConfig_def
  kindScript_def kindButane_def kindMultipartMime_def

text \<open>
  C10. When user data of the empty or the multipart kind carries pending keys, \<open>Render\<close>
  returns normally, leaves the receiver as it was and returns the \<open>Conf\<close> without the
  keys: \<open>CopyKeys\<close> on the fresh \<open>Conf\<close> (with the multipart text stored, for the
  multipart kind) takes no branch and returns it unchanged.
\<close>

theorem Render_discards_keys_of_empty_and_multipart:
  assumes "kind u = kindEmpty \<or> kind u = kindMultipartMime" and "extraKeys u \<noteq> []"
  shows "Render L P ctPlatform u =
           (u, Returned (if kind u = kindEmpty then newConf (User u)
                         else (newConf (User u))\<lparr>multipartMime := data u\<rparr>)) \<and>
         CopyKeys L (extraKeys u) (newConf (User u)) = Inr (newConf (User u)) \<and>
         CopyKeys L (extraKeys u) ((newConf (User u))\<lparr>multipartMime := data u\<rparr>)
           = Inr ((newConf (User u))\<lparr>multipartMime := data u\<rparr>)"
  using assms
  by (auto simp add: Render_def renderKind_def CopyKeys_def newConf_def kind_defs)

theorem Render_discards_keys_of_empty_and_multipart_witness:
  "(kind (AddKey someKey (MultipartMimeConfig ''Content-Type: multipart/mixed'')) = kindEmpty \<or>
    kind (AddKey someKey (MultipartMimeConfig ''Content-Type: multipart/mixed'')) = kindMultipartMime) \<and>
   extraKeys (AddKey someKey (MultipartMimeConfig ''Content-Type: multipart/mixed'')) \<noteq> [] \<and>
   Render sample_lib sample_parsers ''qemu'' (AddKey someKey (MultipartMimeConfig ''Content-Type: multipart/mixed''))
     = (AddKey someKey (MultipartMimeConfig ''Content-Type: multipart/mixed''),
        Returned ((newConf [])\<lparr>multipartMime := ''Content-Type: multipart/mixed''\<rparr>))"
proof -
  let ?u = "AddKey someKey (MultipartMimeConfig ''Content-Type: multipart/mixed'')"
  have k: "kind ?u = kindEmpty \<or> kind ?u = kindMultipartMime"
    by (simp add: AddKey_def MultipartMimeConfig_def)
  have e: "extraKeys ?u \<noteq> []"
    by (simp add: AddKey_def)
  have n: "kind ?u \<noteq> kindEmpty" "User ?u = []" "data ?u = ''Content-Type: multipart/mixed''"
    by (simp_all add: AddKey_def MultipartMimeConfig_def kind_defs)
  have r: "Render sample_lib sample_parsers ''qemu'' ?u =
      (?u, Returned ((newConf [])\<lparr>multipartMime := ''Content-Type: multipart/mixed''\<rparr>))"
    using Render_discards_keys_of_empty_and_multipart [OF k e, of sample_lib sample_parsers "''qemu''", THEN conjunct1]
    by (simp only: n if_False)
  show ?thesis
    by (intro conjI) (rule k, rule e, rule r)
qed

section \<open>Mutations of a document with no populated variant\<close>

lemma AddFile_unpopulated:
  "unpopulated c \<Longrightarrow> AddFile L path filesystem contents mode c = Inl PanicUnimplementedAddFile"
  by (simp add: AddFile_def unpopulated_slots)

lemma AddSystemdUnit_unpopulated:
  "unpopulated c \<Longrightarrow> AddSystemdUnit L name contents enable c = Inr c"
  by (simp add: AddSystemdUnit_def unpopulated_slots)

lemma AddSystemdUnitDropin_unpopulated:
  "unpopulated c \<Longrightarrow> AddSystemdUnitDropin L service name contents c = Inr c"
  by (simp add: AddSystemdUnitDropin_def unpopulated_slots)

lemma CopyKeys_unpopulated:
  "unpopulated c \<Longrightarrow> CopyKeys L keys c = Inr c"
  by (simp add: CopyKeys_def unpopulated_slots)

lemma addFileV1_panics_off_root:
  assumes "sole c V1" and "ignitionV1 c = Some d" and "v1_Filesystems d = fs # rest"
    and "fs1_Device fs \<noteq> rootDevice"
  shows "AddFile L path filesystem contents mode c = Inl (PanicUnexpectedFilesystem (fs1_Device fs))"
  using sole_slots [OF assms(1)] assms(2-4)
  by (simp add: AddFile_def addFileV1_def)

text \<open>
  C5, as amended. The claim has every mutation fault on a document with no populated
  variant. The code does so for \<open>AddFile\<close> only, which panics; \<open>AddSystemdUnit\<close>,
  \<open>AddSystemdUnitDropin\<close> and \<open>CopyKeys\<close> have no final branch and return with the
  document unchanged. \<open>AddFile\<close> on a v1 document whose first filesystem is on a device
  other than the root device panics, as claimed.
\<close>

theorem mutations_without_a_variant:
  "(unpopulated c \<longrightarrow>
      AddFile L path filesystem contents mode c = Inl PanicUnimplementedAddFile \<and>
      AddSystemdUnit L name ucontents enable c = Inr c \<and>
      AddSystemdUnitDropin L service dname dcontents c = Inr c \<and>
      CopyKeys L keys c = Inr c) \<and>
   (sole c V1 \<and> ignitionV1 c = Some d \<and> v1_Filesystems d = fs # rest \<and>
    fs1_Device fs \<noteq> rootDevice \<longrightarrow>
      AddFile L path filesystem contents mode c = Inl (PanicUnexpectedFilesystem (fs1_Device fs)))"
proof (intro conjI impI)
  assume u: "unpopulated c"
  show "AddFile L path filesystem contents mode c = Inl PanicUnimplementedAddFile"
    by (rule AddFile_unpopulated [OF u])
  show "AddSystemdUnit L name ucontents enable c = Inr c"
    by (rule AddSystemdUnit_unpopulated [OF u])
  show "AddSystemdUnitDropin L service dname dcontents c = Inr c"
    by (rule AddSystemdUnitDropin_unpopulated [OF u])
  show "CopyKeys L keys c = Inr c"
    by (rule CopyKeys_unpopulated [OF u])
next
  assume a: "sole c V1 \<and> ignitionV1 c = Some d \<and> v1_Filesystems d = fs # rest \<and>
    fs1_Device fs \<noteq> rootDevice"
  show "AddFile L path filesystem contents mode c = Inl (PanicUnexpectedFilesystem (fs1_Device fs))"
    using a addFileV1_panics_off_root [of c d fs rest] by simp
qed

theorem mutations_without_a_variant_witness:
  "unpopulated (newConf ''core'') \<and>
   AddFile sample_lib ''/etc/motd'' ''root'' ''hello'' 420 (newConf ''core'') = Inl PanicUnimplementedAddFile \<and>
   AddSystemdUnit sample_lib ''docker.service'' ''[Unit]'' True (newConf ''core'') = Inr (newConf ''core'') \<and>
   sole v1_on_sda V1 \<and>
   AddFile sample_lib ''/etc/motd'' ''root'' ''hello'' 420 v1_on_sda
     = Inl (PanicUnexpectedFilesystem ''/dev/sda1'')"
proof -
  have u: "unpopulated (newConf ''core'')"
    by (simp add: unpopulated_def variants_def newConf_def)
  have s: "sole v1_on_sda V1"
    by (simp add: sole_def variants_def newConf_def v1_on_sda_def)
  let ?fs = "\<lparr>fs1_Files = [], fs1_Create = None, fs1_Format = ''ext4'', fs1_Device = ''/dev/sda1''\<rparr>"
  let ?d = "\<lparr>v1_Filesystems = [?fs], v1_Units = [], v1_Users = []\<rparr>"
  have h: "sole v1_on_sda V1 \<and> ignitionV1 v1_on_sda = Some ?d \<and> v1_Filesystems ?d = ?fs # [] \<and>
    fs1_Device ?fs \<noteq> rootDevice"
    using s by (simp add: v1_on_sda_def rootDevice_def)
  note un = mutations_without_a_variant [where c = "newConf ''core''" and L = sample_lib
      and path = "''/etc/motd''" and filesystem = "''root''" and contents = "''hello''" and mode = 420
      and name = "''docker.service''" and ucontents = "''[Unit]''" and enable = True,
      THEN conjunct1, THEN mp, OF u]
  have p: "AddFile sample_lib ''/etc/motd'' ''root'' ''hello'' 420 v1_on_sda
      = Inl (PanicUnexpectedFilesystem ''/dev/sda1'')"
    using mutations_without_a_variant [where c = v1_on_sda and d = ?d and fs = ?fs and rest = "[]"
      and L = sample_lib and path = "''/etc/motd''" and filesystem = "''root''"
      and contents = "''hello''" and mode = 420, THEN conjunct2, THEN mp, OF h]
    by simp
  show ?thesis
    by (intro conjI) (rule u, rule un [THEN conjunct1], rule un [THEN conjunct2, THEN conjunct1],
      rule s, rule p)
qed

text \<open>
  The claim of C5 fails on the fresh \<open>Conf\<close>, which has no populated variant: three of
  the four mutations return normally and change nothing.
\<close>

theorem silent_mutations_counterexample:
  "unpopulated (newConf ''core'') \<and>
   AddSystemdUnit sample_lib ''docker.service'' ''[Unit]'' True (newConf ''core'') = Inr (newConf ''core'') \<and>
   AddSystemdUnitDropin sample_lib ''docker.service'' ''10-override.conf'' ''X'' (newConf ''core'')
     = Inr (newConf ''core'') \<and>
   CopyKeys sample_lib [someKey] (newConf ''core'') = Inr (newConf ''core'')"
  by (simp add: unpopulated_def variants_def newConf_def AddSystemdUnit_def
      AddSystemdUnitDropin_def CopyKeys_def)

section \<open>AddUserToGroups and the routing through the merge functions\<close>











section \<open>AddSystemdUnitDropin: search by name, append or synthesize\<close>





















section \<open>AddFile: one entry per call\<close>

lemma addFile_V1_first:
  assumes "sole c V1" and "v1_Filesystems (the (ignitionV1 c)) = []"
  shows "let d' = (the (ignitionV1 c))\<lparr>v1_Filesystems :=
           [\<lparr>fs1_Files = [\<lparr>file1_Path = path, file1_Contents = contents, file1_Mode = word_of_int mode\<rparr>],
             fs1_Create = None, fs1_Format = ''ext4'', fs1_Device = rootDevice\<rparr>]\<rparr>
     in AddFile L path filesystem contents mode c = Inr (c\<lparr>ignitionV1 := Some d'\<rparr>) \<and>
        String L (c\<lparr>ignitionV1 := Some d'\<rparr>) = json_Marshal_V1 L d' "
  using sole_slots [OF assms(1)] assms
  by (auto simp add: AddFile_def String_def Let_def addFileV1_def)

lemma addFile_V1_next:
  assumes "sole c V1" and "v1_Filesystems (the (ignitionV1 c)) = fs # rest \<and> fs1_Device fs = rootDevice"
  shows "let d' = (the (ignitionV1 c))\<lparr>v1_Filesystems :=
           fs\<lparr>fs1_Files := fs1_Files fs @
             [\<lparr>file1_Path = path, file1_Contents = contents, file1_Mode = word_of_int mode\<rparr>]\<rparr> # rest\<rparr>
     in AddFile L path filesystem contents mode c = Inr (c\<lparr>ignitionV1 := Some d'\<rparr>) \<and>
        String L (c\<lparr>ignitionV1 := Some d'\<rparr>) = json_Marshal_V1 L d' "
  using sole_slots [OF assms(1)] assms
  by (auto simp add: AddFile_def String_def Let_def addFileV1_def)

lemma addFile_V2:
  assumes "sole c V2" and "url_Parse L (dataurl_EncodeBytes L contents) = Inr u"
  shows "let d' = (the (ignitionV2 c))\<lparr>v2_Files := v2_Files (the (ignitionV2 c)) @
           [\<lparr>file2_Filesystem = filesystem, file2_Path = path, file2_Source = u,
             file2_Mode = word_of_int mode\<rparr>]\<rparr>
     in AddFile L path filesystem contents mode c = Inr (c\<lparr>ignitionV2 := Some d'\<rparr>) \<and>
        String L (c\<lparr>ignitionV2 := Some d'\<rparr>) = json_Marshal_V2 L d' "
  using sole_slots [OF assms(1)] assms
  by (auto simp add: AddFile_def String_def Let_def addFileV2_def)

lemma addFile_V21:
  assumes "sole c V21"
  shows "let d' = (the (ignitionV21 c))\<lparr>v21_Files := v21_Files (the (ignitionV21 c)) @
           [\<lparr>file21_Filesystem = filesystem, file21_Path = path,
             file21_Source = dataurl_EncodeBytes L contents, file21_Mode = mode\<rparr>]\<rparr>
     in AddFile L path filesystem contents mode c = Inr (c\<lparr>ignitionV21 := Some d'\<rparr>) \<and>
        String L (c\<lparr>ignitionV21 := Some d'\<rparr>) = json_Marshal_V21 L d' "
  using sole_slots [OF assms(1)] assms
  by (auto simp add: AddFile_def String_def Let_def addFileV21_def)

lemma addFile_V22:
  assumes "sole c V22"
  shows "let d' = (the (ignitionV22 c))\<lparr>v22_Files := v22_Files (the (ignitionV22 c)) @
           [\<lparr>file22_Filesystem = filesystem, file22_Path = path,
             file22_Source = dataurl_EncodeBytes L contents, file22_Mode = Some mode\<rparr>]\<rparr>
     in AddFile L path filesystem contents mode c = Inr (c\<lparr>ignitionV22 := Some d'\<rparr>) \<and>
        String L (c\<lparr>ignitionV22 := Some d'\<rparr>) = json_Marshal_V22 L d' "
  using sole_slots [OF assms(1)] assms
  by (auto simp add: AddFile_def String_def Let_def addFileV22_def)

lemma addFile_V23:
  assumes "sole c V23"
  shows "let d' = (the (ignitionV23 c))\<lparr>v22_Files := v22_Files (the (ignitionV23 c)) @
           [\<lparr>file22_Filesystem = filesystem, file22_Path = path,
             file22_Source = dataurl_EncodeBytes L contents, file22_Mode = Some mode\<rparr>]\<rparr>
     in AddFile L path filesystem contents mode c = Inr (c\<lparr>ignitionV23 := Some d'\<rparr>) \<and>
        String L (c\<lparr>ignitionV23 := Some d'\<rparr>) = json_Marshal_V22 L d' "
  using sole_slots [OF assms(1)] assms
  by (auto simp add: AddFile_def String_def Let_def addFileV23_def)

lemma addFile_CloudCfg:
  assumes "sole c CloudCfg"
  shows "let d' = (the (cloudconfig c))\<lparr>cc_WriteFiles := cc_WriteFiles (the (cloudconfig c)) @
           [\<lparr>cf_Content = contents, cf_Owner = ''root'', cf_Path = path,
             cf_RawFilePermissions = sprintf_sharp_o mode\<rparr>]\<rparr>
     in AddFile L path filesystem contents mode c = Inr (c\<lparr>cloudconfig := Some d'\<rparr>) \<and>
        String L (c\<lparr>cloudconfig := Some d'\<rparr>) = cloudconfig_String L d' "
  using sole_slots [OF assms(1)] assms
  by (auto simp add: AddFile_def String_def Let_def addFileCloudConfig_def)

lemma addFile_V3:
  assumes "sole c V3"
  shows "let d' = v3_Merge L (the (ignitionV3 c)) (fileOverlay L ''3.0.0'' path contents mode)
     in AddFile L path filesystem contents mode c = Inr (c\<lparr>ignitionV3 := Some d'\<rparr>) \<and>
        String L (c\<lparr>ignitionV3 := Some d'\<rparr>) = json_Marshal_V3 L d' "
  using sole_slots [OF assms(1)] assms
  by (auto simp add: AddFile_def String_def Let_def addFileV3_def MergeV3_def)

lemma addFile_V31:
  assumes "sole c V31"
  shows "let d' = v31_Merge L (the (ignitionV31 c)) (fileOverlay L ''3.1.0'' path contents mode)
     in AddFile L path filesystem contents mode c = Inr (c\<lparr>ignitionV31 := Some d'\<rparr>) \<and>
        String L (c\<lparr>ignitionV31 := Some d'\<rparr>) = json_Marshal_V3 L d' "
  using sole_slots [OF assms(1)] assms
  by (auto simp add: AddFile_def String_def Let_def addFileV31_def MergeV31_def)

lemma addFile_V32:
  assumes "sole c V32"
  shows "let d' = v32_Merge L (the (ignitionV32 c)) (fileOverlay L ''3.2.0'' path contents mode)
     in AddFile L path filesystem contents mode c = Inr (c\<lparr>ignitionV32 := Some d'\<rparr>) \<and>
        String L (c\<lparr>ignitionV32 := Some d'\<rparr>) = json_Marshal_V3 L d' "
  using sole_slots [OF assms(1)] assms
  by (auto simp add: AddFile_def String_def Let_def addFileV32_def MergeV32_def)

lemma addFile_V33:
  assumes "sole c V33"
  shows "let d' = v33_Merge L (the (ignitionV33 c)) (fileOverlay L ''3.3.0'' path contents mode)
     in AddFile L path filesystem contents mode c = Inr (c\<lparr>ignitionV33 := Some d'\<rparr>) \<and>
        String L (c\<lparr>ignitionV33 := Some d'\<rparr>) = json_Marshal_V3 L d' "
  using sole_slots [OF assms(1)] assms
  by (auto simp add: AddFile_def String_def Let_def addFileV33_def MergeV33_def)

lemma merged_file_overlay:
  assumes "merge_appends_files L"
  shows "v3_Files (v3_Merge L d (fileOverlay L version path contents mode)) = v3_Files d @
           [\<lparr>file3_Path = path, file3_Source = Some (dataurl_EncodeBytes L contents), file3_Mode = Some mode\<rparr>]"
    and "v3_Files (v31_Merge L d (fileOverlay L version path contents mode)) = v3_Files d @
           [\<lparr>file3_Path = path, file3_Source = Some (dataurl_EncodeBytes L contents), file3_Mode = Some mode\<rparr>]"
    and "v3_Files (v32_Merge L d (fileOverlay L version path contents mode)) = v3_Files d @
           [\<lparr>file3_Path = path, file3_Source = Some (dataurl_EncodeBytes L contents), file3_Mode = Some mode\<rparr>]"
    and "v3_Files (v33_Merge L d (fileOverlay L version path contents mode)) = v3_Files d @
           [\<lparr>file3_Path = path, file3_Source = Some (dataurl_EncodeBytes L contents), file3_Mode = Some mode\<rparr>]"
  using assms by (simp_all add: merge_appends_files_def fileOverlay_def)

text \<open>
  C6, as amended. On a document with one populated variant, \<open>AddFile\<close> stores a
  document that \<open>String\<close> then serialises, and that document has one more file entry,
  after the entries it had, with the given path and content: as it is on v1 (in the one
  filesystem made for it when there is none, else in the first filesystem, provided that
  one is on the root device) and on cloud-config; as the data URL of the content on v2.0
  (provided \<open>url.Parse\<close> accepts the data URL) and on v2.1 to v2.3; on v3.0 to v3.3 as
  the one file of an overlay merged into the stored document, which under the merge
  contract of section 4.5 is appended to the stored files. Nothing looks for an earlier
  entry of the same path, so a repeated call appends a duplicate.
\<close>

theorem AddFile_appends_one_entry:
  assumes "sole c v"
  shows
   "(v = V1 \<and> v1_Filesystems (the (ignitionV1 c)) = [] \<longrightarrow>
     (let d' = (the (ignitionV1 c))\<lparr>v1_Filesystems :=
           [\<lparr>fs1_Files = [\<lparr>file1_Path = path, file1_Contents = contents, file1_Mode = word_of_int mode\<rparr>],
             fs1_Create = None, fs1_Format = ''ext4'', fs1_Device = rootDevice\<rparr>]\<rparr>
     in AddFile L path filesystem contents mode c = Inr (c\<lparr>ignitionV1 := Some d'\<rparr>) \<and>
        String L (c\<lparr>ignitionV1 := Some d'\<rparr>) = json_Marshal_V1 L d')) \<and>
    (v = V1 \<and> v1_Filesystems (the (ignitionV1 c)) = fs # rest \<and> fs1_Device fs = rootDevice \<longrightarrow>
     (let d' = (the (ignitionV1 c))\<lparr>v1_Filesystems :=
           fs\<lparr>fs1_Files := fs1_Files fs @
             [\<lparr>file1_Path = path, file1_Contents = contents, file1_Mode = word_of_int mode\<rparr>]\<rparr> # rest\<rparr>
     in AddFile L path filesystem contents mode c = Inr (c\<lparr>ignitionV1 := Some d'\<rparr>) \<and>
        String L (c\<lparr>ignitionV1 := Some d'\<rparr>) = json_Marshal_V1 L d')) \<and>
    (v = V2 \<and> url_Parse L (dataurl_EncodeBytes L contents) = Inr u \<longrightarrow>
     (let d' = (the (ignitionV2 c))\<lparr>v2_Files := v2_Files (the (ignitionV2 c)) @
           [\<lparr>file2_Filesystem = filesystem, file2_Path = path, file2_Source = u,
             file2_Mode = word_of_int mode\<rparr>]\<rparr>
     in AddFile L path filesystem contents mode c = Inr (c\<lparr>ignitionV2 := Some d'\<rparr>) \<and>
        String L (c\<lparr>ignitionV2 := Some d'\<rparr>) = json_Marshal_V2 L d')) \<and>
    (v = V21 \<longrightarrow>
     (let d' = (the (ignitionV21 c))\<lparr>v21_Files := v21_Files (the (ignitionV21 c)) @
           [\<lparr>file21_Filesystem = filesystem, file21_Path = path,
             file21_Source = dataurl_EncodeBytes L contents, file21_Mode = mode\<rparr>]\<rparr>
     in AddFile L path filesystem contents mode c = Inr (c\<lparr>ignitionV21 := Some d'\<rparr>) \<and>
        String L (c\<lparr>ignitionV21 := Some d'\<rparr>) = json_Marshal_V21 L d')) \<and>
    (v = V22 \<longrightarrow>
     (let d' = (the (ignitionV22 c))\<lparr>v22_Files := v22_Files (the (ignitionV22 c)) @
           [\<lparr>file22_Filesystem = filesystem, file22_Path = path,
             file22_Source = dataurl_EncodeBytes L contents, file22_Mode = Some mode\<rparr>]\<rparr>
     in AddFile L path filesystem contents mode c = Inr (c\<lparr>ignitionV22 := Some d'\<rparr>) \<and>
        String L (c\<lparr>ignitionV22 := Some d'\<rparr>) = json_Marshal_V22 L d')) \<and>
    (v = V23 \<longrightarrow>
     (let d' = (the (ignitionV23 c))\<lparr>v22_Files := v22_Files (the (ignitionV23 c)) @
           [\<lparr>file22_Filesystem = filesystem, file22_Path = path,
             file22_Source = dataurl_EncodeBytes L contents, file22_Mode = Some mode\<rparr>]\<rparr>
     in AddFile L path filesystem contents mode c = Inr (c\<lparr>ignitionV23 := Some d'\<rparr>) \<and>
        String L (c\<lparr>ignitionV23 := Some d'\<rparr>) = json_Marshal_V22 L d')) \<and>
    (v = CloudCfg \<longrightarrow>
     (let d' = (the (cloudconfig c))\<lparr>cc_WriteFiles := cc_WriteFiles (the (cloudconfig c)) @
           [\<lparr>cf_Content = contents, cf_Owner = ''root'', cf_Path = path,
             cf_RawFilePermissions = sprintf_sharp_o mode\<rparr>]\<rparr>
     in AddFile L path filesystem contents mode c = Inr (c\<lparr>cloudconfig := Some d'\<rparr>) \<and>
        String L (c\<lparr>cloudconfig := Some d'\<rparr>) = cloudconfig_String L d')) \<and>
    (v = V3 \<longrightarrow>
     (let d' = v3_Merge L (the (ignitionV3 c)) (fileOverlay L ''3.0.0'' path contents mode)
     in AddFile L path filesystem contents mode c = Inr (c\<lparr>ignitionV3 := Some d'\<rparr>) \<and>
        String L (c\<lparr>ignitionV3 := Some d'\<rparr>) = json_Marshal_V3 L d')) \<and>
    (v = V31 \<longrightarrow>
     (let d' = v31_Merge L (the (ignitionV31 c)) (fileOverlay L ''3.1.0'' path contents mode)
     in AddFile L path filesystem contents mode c = Inr (c\<lparr>ignitionV31 := Some d'\<rparr>) \<and>
        String L (c\<lparr>ignitionV31 := Some d'\<rparr>) = json_Marshal_V3 L d')) \<and>
    (v = V32 \<longrightarrow>
     (let d' = v32_Merge L (the (ignitionV32 c)) (fileOverlay L ''3.2.0'' path contents mode)
     in AddFile L path filesystem contents mode c = Inr (c\<lparr>ignitionV32 := Some d'\<rparr>) \<and>
        String L (c\<lparr>ignitionV32 := Some d'\<rparr>) = json_Marshal_V3 L d')) \<and>
    (v = V33 \<longrightarrow>
     (let d' = v33_Merge L (the (ignitionV33 c)) (fileOverlay L ''3.3.0'' path contents mode)
     in AddFile L path filesystem contents mode c = Inr (c\<lparr>ignitionV33 := Some d'\<rparr>) \<and>
        String L (c\<lparr>ignitionV33 := Some d'\<rparr>) = json_Marshal_V3 L d')) \<and>
    (merge_appends_files L \<longrightarrow>
      v3_Files (v3_Merge L stored (fileOverlay L version path contents mode)) = v3_Files stored @
        [\<lparr>file3_Path = path, file3_Source = Some (dataurl_EncodeBytes L contents), file3_Mode = Some mode\<rparr>] \<and>
      v3_Files (v31_Merge L stored (fileOverlay L version path contents mode)) = v3_Files stored @
        [\<lparr>file3_Path = path, file3_Source = Some (dataurl_EncodeBytes L contents), file3_Mode = Some mode\<rparr>] \<and>
      v3_Files (v32_Merge L stored (fileOverlay L version path contents mode)) = v3_Files stored @
        [\<lparr>file3_Path = path, file3_Source = Some (dataurl_EncodeBytes L contents), file3_Mode = Some mode\<rparr>] \<and>
      v3_Files (v33_Merge L stored (fileOverlay L version path contents mode)) = v3_Files stored @
        [\<lparr>file3_Path = path, file3_Source = Some (dataurl_EncodeBytes L contents), file3_Mode = Some mode\<rparr>])"
proof (intro conjI impI)
  assume a: "v = V1 \<and> v1_Filesystems (the (ignitionV1 c)) = []"
  from a assms have s: "sole c V1" by simp
  show "let d' = (the (ignitionV1 c))\<lparr>v1_Filesystems :=
           [\<lparr>fs1_Files = [\<lparr>file1_Path = path, file1_Contents = contents, file1_Mode = word_of_int mode\<rparr>],
             fs1_Create = None, fs1_Format = ''ext4'', fs1_Device = rootDevice\<rparr>]\<rparr>
     in AddFile L path filesystem contents mode c = Inr (c\<lparr>ignitionV1 := Some d'\<rparr>) \<and>
        String L (c\<lparr>ignitionV1 := Some d'\<rparr>) = json_Marshal_V1 L d'"
    by (rule addFile_V1_first [OF s a [THEN conjunct2]])
next
  assume a: "v = V1 \<and> v1_Filesystems (the (ignitionV1 c)) = fs # rest \<and> fs1_Device fs = rootDevice"
  from a assms have s: "sole c V1" by simp
  show "let d' = (the (ignitionV1 c))\<lparr>v1_Filesystems :=
           fs\<lparr>fs1_Files := fs1_Files fs @
             [\<lparr>file1_Path = path, file1_Contents = contents, file1_Mode = word_of_int mode\<rparr>]\<rparr> # rest\<rparr>
     in AddFile L path filesystem contents mode c = Inr (c\<lparr>ignitionV1 := Some d'\<rparr>) \<and>
        String L (c\<lparr>ignitionV1 := Some d'\<rparr>) = json_Marshal_V1 L d'"
    by (rule addFile_V1_next [OF s a [THEN conjunct2]])
next
  assume a: "v = V2 \<and> url_Parse L (dataurl_EncodeBytes L contents) = Inr u"
  from a assms have s: "sole c V2" by simp
  show "let d' = (the (ignitionV2 c))\<lparr>v2_Files := v2_Files (the (ignitionV2 c)) @
           [\<lparr>file2_Filesystem = filesystem, file2_Path = path, file2_Source = u,
             file2_Mode = word_of_int mode\<rparr>]\<rparr>
     in AddFile L path filesystem contents mode c = Inr (c\<lparr>ignitionV2 := Some d'\<rparr>) \<and>
        String L (c\<lparr>ignitionV2 := Some d'\<rparr>) = json_Marshal_V2 L d'"
    by (rule addFile_V2 [OF s a [THEN conjunct2]])
next
  assume a: "v = V21"
  from a assms have s: "sole c V21" by simp
  show "let d' = (the (ignitionV21 c))\<lparr>v21_Files := v21_Files (the (ignitionV21 c)) @
           [\<lparr>file21_Filesystem = filesystem, file21_Path = path,
             file21_Source = dataurl_EncodeBytes L contents, file21_Mode = mode\<rparr>]\<rparr>
     in AddFile L path filesystem contents mode c = Inr (c\<lparr>ignitionV21 := Some d'\<rparr>) \<and>
        String L (c\<lparr>ignitionV21 := Some d'\<rparr>) = json_Marshal_V21 L d'"
    by (rule addFile_V21 [OF s])
next
  assume a: "v = V22"
  from a assms have s: "sole c V22" by simp
  show "let d' = (the (ignitionV22 c))\<lparr>v22_Files := v22_Files (the (ignitionV22 c)) @
           [\<lparr>file22_Filesystem = filesystem, file22_Path = path,
             file22_Source = dataurl_EncodeBytes L contents, file22_Mode = Some mode\<rparr>]\<rparr>
     in AddFile L path filesystem contents mode c = Inr (c\<lparr>ignitionV22 := Some d'\<rparr>) \<and>
        String L (c\<lparr>ignitionV22 := Some d'\<rparr>) = json_Marshal_V22 L d'"
    by (rule addFile_V22 [OF s])
next
  assume a: "v = V23"
  from a assms have s: "sole c V23" by simp
  show "let d' = (the (ignitionV23 c))\<lparr>v22_Files := v22_Files (the (ignitionV23 c)) @
           [\<lparr>file22_Filesystem = filesystem, file22_Path = path,
             file22_Source = dataurl_EncodeBytes L contents, file22_Mode = Some mode\<rparr>]\<rparr>
     in AddFile L path filesystem contents mode c = Inr (c\<lparr>ignitionV23 := Some d'\<rparr>) \<and>
        String L (c\<lparr>ignitionV23 := Some d'\<rparr>) = json_Marshal_V22 L d'"
    by (rule addFile_V23 [OF s])
next
  assume a: "v = CloudCfg"
  from a assms have s: "sole c CloudCfg" by simp
  show "let d' = (the (cloudconfig c))\<lparr>cc_WriteFiles := cc_WriteFiles (the (cloudconfig c)) @
           [\<lparr>cf_Content = contents, cf_Owner = ''root'', cf_Path = path,
             cf_RawFilePermissions = sprintf_sharp_o mode\<rparr>]\<rparr>
     in AddFile L path filesystem contents mode c = Inr (c\<lparr>cloudconfig := Some d'\<rparr>) \<and>
        String L (c\<lparr>cloudconfig := Some d'\<rparr>) = cloudconfig_String L d'"
    by (rule addFile_CloudCfg [OF s])
next
  assume a: "v = V3"
  from a assms have s: "sole c V3" by simp
  show "let d' = v3_Merge L (the (ignitionV3 c)) (fileOverlay L ''3.0.0'' path contents mode)
     in AddFile L path filesystem contents mode c = Inr (c\<lparr>ignitionV3 := Some d'\<rparr>) \<and>
        String L (c\<lparr>ignitionV3 := Some d'\<rparr>) = json_Marshal_V3 L d'"
    by (rule addFile_V3 [OF s])
next
  assume a: "v = V31"
  from a assms have s: "sole c V31" by simp
  show "let d' = v31_Merge L (the (ignitionV31 c)) (fileOverlay L ''3.1.0'' path contents mode)
     in AddFile L path filesystem contents mode c = Inr (c\<lparr>ignitionV31 := Some d'\<rparr>) \<and>
        String L (c\<lparr>ignitionV31 := Some d'\<rparr>) = json_Marshal_V3 L d'"
    by (rule addFile_V31 [OF s])
next
  assume a: "v = V32"
  from a assms have s: "sole c V32" by simp
  show "let d' = v32_Merge L (the (ignitionV32 c)) (fileOverlay L ''3.2.0'' path contents mode)
     in AddFile L path filesystem contents mode c = Inr (c\<lparr>ignitionV32 := Some d'\<rparr>) \<and>
        String L (c\<lparr>ignitionV32 := Some d'\<rparr>) = json_Marshal_V3 L d'"
    by (rule addFile_V32 [OF s])
next
  assume a: "v = V33"
  from a assms have s: "sole c V33" by simp
  show "let d' = v33_Merge L (the (ignitionV33 c)) (fileOverlay L ''3.3.0'' path contents mode)
     in AddFile L path filesystem contents mode c = Inr (c\<lparr>ignitionV33 := Some d'\<rparr>) \<and>
        String L (c\<lparr>ignitionV33 := Some d'\<rparr>) = json_Marshal_V3 L d'"
    by (rule addFile_V33 [OF s])
next
  assume m: "merge_appends_files L"
  show "v3_Files (v3_Merge L stored (fileOverlay L version path contents mode)) = v3_Files stored @
        [\<lparr>file3_Path = path, file3_Source = Some (dataurl_EncodeBytes L contents), file3_Mode = Some mode\<rparr>]"
    by (rule merged_file_overlay [OF m])
  show "v3_Files (v31_Merge L stored (fileOverlay L version path contents mode)) = v3_Files stored @
        [\<lparr>file3_Path = path, file3_Source = Some (dataurl_EncodeBytes L contents), file3_Mode = Some mode\<rparr>]"
    by (rule merged_file_overlay [OF m])
  show "v3_Files (v32_Merge L stored (fileOverlay L version path contents mode)) = v3_Files stored @
        [\<lparr>file3_Path = path, file3_Source = Some (dataurl_EncodeBytes L contents), file3_Mode = Some mode\<rparr>]"
    by (rule merged_file_overlay [OF m])
  show "v3_Files (v33_Merge L stored (fileOverlay L version path contents mode)) = v3_Files stored @
        [\<lparr>file3_Path = path, file3_Source = Some (dataurl_EncodeBytes L contents), file3_Mode = Some mode\<rparr>]"
    by (rule merged_file_overlay [OF m])
qed

lemma sample_lib_merge_appends_files: "merge_appends_files sample_lib"
  by (simp add: merge_appends_files_def sample_lib_def spec_Merge_def)

theorem AddFile_appends_one_entry_witness:
  "sole ((newConf ''core'')\<lparr>ignitionV22 := Some emptyV22\<rparr>) V22 \<and>
   AddFile sample_lib ''/etc/motd'' ''root'' ''hello'' 420 ((newConf ''core'')\<lparr>ignitionV22 := Some emptyV22\<rparr>)
     = Inr ((newConf ''core'')\<lparr>ignitionV22 := Some
         \<lparr>v22_Files = [\<lparr>file22_Filesystem = ''root'', file22_Path = ''/etc/motd'',
                         file22_Source = ''data:,hello'', file22_Mode = Some 420\<rparr>],
          v22_Units = [], v22_Users = []\<rparr>\<rparr>) \<and>
   AddFile sample_lib ''/etc/motd'' ''root'' ''hello'' 420
       ((newConf ''core'')\<lparr>ignitionV22 := Some
         \<lparr>v22_Files = [\<lparr>file22_Filesystem = ''root'', file22_Path = ''/etc/motd'',
                         file22_Source = ''data:,hello'', file22_Mode = Some 420\<rparr>],
          v22_Units = [], v22_Users = []\<rparr>\<rparr>)
     = Inr ((newConf ''core'')\<lparr>ignitionV22 := Some
         \<lparr>v22_Files = [\<lparr>file22_Filesystem = ''root'', file22_Path = ''/etc/motd'',
                         file22_Source = ''data:,hello'', file22_Mode = Some 420\<rparr>,
                       \<lparr>file22_Filesystem = ''root'', file22_Path = ''/etc/motd'',
                         file22_Source = ''data:,hello'', file22_Mode = Some 420\<rparr>],
          v22_Units = [], v22_Users = []\<rparr>\<rparr>) \<and>
   merge_appends_files sample_lib \<and>
   sole ((newConf ''core'')\<lparr>ignitionV33 := Some (emptyV3 ''3.3.0'')\<rparr>) V33 \<and>
   AddFile sample_lib ''/etc/motd'' ''root'' ''hello'' 420
       ((newConf ''core'')\<lparr>ignitionV33 := Some (emptyV3 ''3.3.0'')\<rparr>)
     = Inr ((newConf ''core'')\<lparr>ignitionV33 := Some
         \<lparr>v3_Version = ''3.3.0'',
          v3_Files = [\<lparr>file3_Path = ''/etc/motd'', file3_Source = Some ''data:,hello'',
                        file3_Mode = Some 420\<rparr>],
          v3_Units = [], v3_Users = []\<rparr>\<rparr>) \<and>
   v3_Files (v33_Merge sample_lib (emptyV3 ''3.3.0'')
       (fileOverlay sample_lib ''3.3.0'' ''/etc/motd'' ''hello'' 420))
     = [\<lparr>file3_Path = ''/etc/motd'', file3_Source = Some ''data:,hello'', file3_Mode = Some 420\<rparr>]"
proof -
  let ?e = "\<lparr>file22_Filesystem = ''root'', file22_Path = ''/etc/motd'',
             file22_Source = ''data:,hello'', file22_Mode = Some (420::int)\<rparr>"
  let ?c0 = "(newConf ''core'')\<lparr>ignitionV22 := Some emptyV22\<rparr>"
  let ?c1 = "(newConf ''core'')\<lparr>ignitionV22 := Some \<lparr>v22_Files = [?e], v22_Units = [], v22_Users = []\<rparr>\<rparr>"
  let ?c33 = "(newConf ''core'')\<lparr>ignitionV33 := Some (emptyV3 ''3.3.0'')\<rparr>"
  have s0: "sole ?c0 V22"
    by (simp add: sole_def variants_def newConf_def)
  have s1: "sole ?c1 V22"
    by (simp add: sole_def variants_def newConf_def)
  have s33: "sole ?c33 V33"
    by (simp add: sole_def variants_def newConf_def)
  have enc: "dataurl_EncodeBytes sample_lib ''hello'' = ''data:,hello''"
    by (simp add: sample_lib_def)
  have r0: "AddFile sample_lib ''/etc/motd'' ''root'' ''hello'' 420 ?c0 = Inr ?c1"
    using AddFile_appends_one_entry [OF s0, where L = sample_lib and path = "''/etc/motd''"
        and filesystem = "''root''" and contents = "''hello''" and mode = 420,
        THEN conjunct2, THEN conjunct2, THEN conjunct2, THEN conjunct2, THEN conjunct1,
        THEN mp, OF refl]
    by (simp add: Let_def emptyV22_def enc)
  have r1: "AddFile sample_lib ''/etc/motd'' ''root'' ''hello'' 420 ?c1
      = Inr ((newConf ''core'')\<lparr>ignitionV22 := Some \<lparr>v22_Files = [?e, ?e], v22_Units = [], v22_Users = []\<rparr>\<rparr>)"
    using AddFile_appends_one_entry [OF s1, where L = sample_lib and path = "''/etc/motd''"
        and filesystem = "''root''" and contents = "''hello''" and mode = 420,
        THEN conjunct2, THEN conjunct2, THEN conjunct2, THEN conjunct2, THEN conjunct1,
        THEN mp, OF refl]
    by (simp add: Let_def enc)
  note t33 = AddFile_appends_one_entry [OF s33, where L = sample_lib and path = "''/etc/motd''"
        and filesystem = "''root''" and contents = "''hello''" and mode = 420
        and stored = "emptyV3 ''3.3.0''" and version = "''3.3.0''",
        THEN conjunct2, THEN conjunct2, THEN conjunct2, THEN conjunct2, THEN conjunct2,
        THEN conjunct2, THEN conjunct2, THEN conjunct2, THEN conjunct2, THEN conjunct2]
  have r33: "AddFile sample_lib ''/etc/motd'' ''root'' ''hello'' 420 ?c33
     = Inr ((newConf ''core'')\<lparr>ignitionV33 := Some
         \<lparr>v3_Version = ''3.3.0'',
          v3_Files = [\<lparr>file3_Path = ''/etc/motd'', file3_Source = Some ''data:,hello'',
                        file3_Mode = Some 420\<rparr>],
          v3_Units = [], v3_Users = []\<rparr>\<rparr>)"
    using t33 [THEN conjunct1, THEN mp, OF refl]
    by (simp add: Let_def sample_lib_def spec_Merge_def emptyV3_def fileOverlay_def)
  have f33: "v3_Files (v33_Merge sample_lib (emptyV3 ''3.3.0'')
       (fileOverlay sample_lib ''3.3.0'' ''/etc/motd'' ''hello'' 420))
     = [\<lparr>file3_Path = ''/etc/motd'', file3_Source = Some ''data:,hello'', file3_Mode = Some 420\<rparr>]"
    using t33 [THEN conjunct2, THEN mp, OF sample_lib_merge_appends_files,
        THEN conjunct2, THEN conjunct2, THEN conjunct2]
    by (simp add: emptyV3_def enc)
  show ?thesis
    by (intro conjI) (rule s0, rule r0, rule r1, rule sample_lib_merge_appends_files,
      rule s33, rule r33, rule f33)
qed

text \<open>
  The claim of C6 covers every declarative variant. On a v1 document whose first
  filesystem is on another device than the root device, \<open>AddFile\<close> panics and no entry
  is added.
\<close>

theorem AddFile_v1_other_device_counterexample:
  "sole v1_on_sda V1 \<and>
   AddFile sample_lib ''/etc/motd'' ''root'' ''hello'' 420 v1_on_sda
     = Inl (PanicUnexpectedFilesystem ''/dev/sda1'')"
  by (simp add: sole_def variants_def newConf_def v1_on_sda_def AddFile_def addFileV1_def
      rootDevice_def)

section \<open>The version cascade of Render\<close>

lemma spec_cascade_step:
  "spec_cascade giveUp (attempt_of unknown populate answer # rest) c =
     (case snd (snd answer) of
        None \<Rightarrow> Inr (populate (fst answer) c)
      | Some err \<Rightarrow> if err = unknown then spec_cascade giveUp rest c else Inl err)"
  by (simp add: attempt_of_def split: option.splits)

lemma cascade_level:
  "(let (cfg, report, err) = answer in
      if err = None then accept cfg
      else if err \<noteq> Some unknown then Inl (the err)
      else next_level) =
   (case snd (snd answer) of
      None \<Rightarrow> accept (fst answer)
    | Some err \<Rightarrow> if err = unknown then next_level else Inl err)"
  by (cases answer) (auto split: option.splits)

lemma cascade_last_level:
  "(let (cfg, report, err) = answer in
      if err = None then accept cfg
      else if err \<noteq> Some unknown then Inl (the err)
      else Inl (the err)) =
   (case snd (snd answer) of
      None \<Rightarrow> accept (fst answer)
    | Some err \<Rightarrow> if err = unknown then Inl unknown else Inl err)"
  by (cases answer) (auto split: option.splits)

lemma renderIgnition_is_spec_cascade:
  "renderIgnition P u c = spec_cascade Err3UnknownVersion (cascade_attempts P (data u)) c"
  unfolding renderIgnition_def cascade_attempts_def
  by (simp only: cascade_last_level cascade_level spec_cascade_step spec_cascade.simps(1)
      cong: if_cong option.case_cong)

lemma Render_Ignition:
  "kind u = kindIgnition \<Longrightarrow>
   Render L P ctPlatform u =
     (u, case renderIgnition P u (newConf (User u)) of
           Inl err \<Rightarrow> Failed err
         | Inr c' \<Rightarrow>
             if extraKeys u = [] then Returned c'
             else (case CopyKeys L (extraKeys u) c' of
                     Inl f \<Rightarrow> Panicked f
                   | Inr c'' \<Rightarrow> Returned c''))"
  by (simp add: Render_def renderKind_def kind_defs split: sum.splits)

lemma cascade_accepts_at_v22:
  assumes "snd (snd (v1_Parse P d)) = Some ErrUnknownVersion"
    and "snd (snd (v2_Parse P d)) = Some ErrUnknownVersion"
    and "snd (snd (v21_Parse P d)) = Some ErrUnknownVersion"
    and "v22_Parse P d = (cfg, report, None)"
  shows "spec_cascade Err3UnknownVersion (cascade_attempts P d) c = Inr (c\<lparr>ignitionV22 := Some cfg\<rparr>)"
  using assms by (simp add: cascade_attempts_def attempt_of_def)

text \<open>
  C4. \<open>renderIgnition\<close> is the cascade of the specification over the nine parsers in
  the order v1, v2.0, v2.1, v2.2, v2.3, v3.0, v3.1, v3.2, v3.3: the first parser that
  succeeds fills its slot and ends the cascade, the unknown-version error of a parser's
  library moves on to the next parser, any other error is returned at once. For user
  data of the Ignition kind, \<open>Render\<close> returns that error, or the \<open>Conf\<close> of the
  cascade (after \<open>CopyKeys\<close>, when keys are pending). In particular, when the v1, v2.0
  and v2.1 parsers answer the payload \<open>{"ignition":{"version":"2.2.0"}}\<close> with the
  unknown-version error and the v2.2 parser accepts it, \<open>Render\<close> returns a \<open>Conf\<close>
  with the v2.2 slot filled, and \<open>IsIgnition\<close> holds of it.
\<close>

theorem Render_tries_versions_in_ascending_order:
  "renderIgnition P u c = spec_cascade Err3UnknownVersion (cascade_attempts P (data u)) c \<and>
   (kind u = kindIgnition \<longrightarrow>
      Render L P ctPlatform u =
        (u, case spec_cascade Err3UnknownVersion (cascade_attempts P (data u)) (newConf (User u)) of
              Inl err \<Rightarrow> Failed err
            | Inr c' \<Rightarrow>
                if extraKeys u = [] then Returned c'
                else (case CopyKeys L (extraKeys u) c' of
                        Inl f \<Rightarrow> Panicked f
                      | Inr c'' \<Rightarrow> Returned c''))) \<and>
   (snd (snd (v1_Parse P (version_payload ''2.2.0''))) = Some ErrUnknownVersion \<and>
    snd (snd (v2_Parse P (version_payload ''2.2.0''))) = Some ErrUnknownVersion \<and>
    snd (snd (v21_Parse P (version_payload ''2.2.0''))) = Some ErrUnknownVersion \<and>
    v22_Parse P (version_payload ''2.2.0'') = (cfg, report, None) \<longrightarrow>
      Render L P ctPlatform (Ignition (version_payload ''2.2.0'')) =
        (Ignition (version_payload ''2.2.0''), Returned ((newConf [])\<lparr>ignitionV22 := Some cfg\<rparr>)) \<and>
      IsIgnition ((newConf [])\<lparr>ignitionV22 := Some cfg\<rparr>))"
proof (intro conjI impI)
  show "renderIgnition P u c = spec_cascade Err3UnknownVersion (cascade_attempts P (data u)) c"
    by (rule renderIgnition_is_spec_cascade)
next
  assume k: "kind u = kindIgnition"
  show "Render L P ctPlatform u =
        (u, case spec_cascade Err3UnknownVersion (cascade_attempts P (data u)) (newConf (User u)) of
              Inl err \<Rightarrow> Failed err
            | Inr c' \<Rightarrow>
                if extraKeys u = [] then Returned c'
                else (case CopyKeys L (extraKeys u) c' of
                        Inl f \<Rightarrow> Panicked f
                      | Inr c'' \<Rightarrow> Returned c''))"
    by (simp only: Render_Ignition [OF k] renderIgnition_is_spec_cascade)
next
  assume a: "snd (snd (v1_Parse P (version_payload ''2.2.0''))) = Some ErrUnknownVersion \<and>
    snd (snd (v2_Parse P (version_payload ''2.2.0''))) = Some ErrUnknownVersion \<and>
    snd (snd (v21_Parse P (version_payload ''2.2.0''))) = Some ErrUnknownVersion \<and>
    v22_Parse P (version_payload ''2.2.0'') = (cfg, report, None)"
  let ?u = "Ignition (version_payload ''2.2.0'')"
  have k: "kind ?u = kindIgnition" and d: "data ?u = version_payload ''2.2.0''"
    and e: "extraKeys ?u = []" and n: "User ?u = []"
    by (simp_all add: Ignition_def)
  have r: "renderIgnition P ?u (newConf []) = Inr ((newConf [])\<lparr>ignitionV22 := Some cfg\<rparr>)"
    using cascade_accepts_at_v22 [OF a [THEN conjunct1] a [THEN conjunct2, THEN conjunct1]
        a [THEN conjunct2, THEN conjunct2, THEN conjunct1]
        a [THEN conjunct2, THEN conjunct2, THEN conjunct2], of "newConf []"]
    by (simp only: renderIgnition_is_spec_cascade d)
  show "Render L P ctPlatform ?u = (?u, Returned ((newConf [])\<lparr>ignitionV22 := Some cfg\<rparr>))"
    by (simp add: Render_Ignition [OF k] n r e)
next
  show "IsIgnition ((newConf [])\<lparr>ignitionV22 := Some cfg\<rparr>)"
    by (simp add: IsIgnition_def)
qed

theorem Render_tries_versions_in_ascending_order_witness:
  \<open>version_payload ''2.2.0'' = ''{"ignition":{"version":"2.2.0"}}'' \<and>
   snd (snd (v1_Parse sample_parsers (version_payload ''2.2.0''))) = Some ErrUnknownVersion \<and>
   snd (snd (v2_Parse sample_parsers (version_payload ''2.2.0''))) = Some ErrUnknownVersion \<and>
   snd (snd (v21_Parse sample_parsers (version_payload ''2.2.0''))) = Some ErrUnknownVersion \<and>
   v22_Parse sample_parsers (version_payload ''2.2.0'') = (emptyV22, noReport, None) \<and>
   Render sample_lib sample_parsers ''qemu'' (Ignition (version_payload ''2.2.0'')) =
     (Ignition (version_payload ''2.2.0''), Returned ((newConf [])\<lparr>ignitionV22 := Some emptyV22\<rparr>)) \<and>
   IsIgnition ((newConf [])\<lparr>ignitionV22 := Some emptyV22\<rparr>) \<and>
   kind (Ignition (version_payload ''2.2.0'')) = kindIgnition \<and>
   Render sample_lib rejecting_parsers ''qemu'' (Ignition (version_payload ''2.2.0'')) =
     (Ignition (version_payload ''2.2.0''), Failed (ErrLibrary ''syntax error'')) \<and>
   Render sample_lib sample_parsers ''qemu'' (Ignition (version_payload ''9.9.9'')) =
     (Ignition (version_payload ''9.9.9''), Failed Err3UnknownVersion)\<close>
proof -
  let ?d = "version_payload ''2.2.0''"
  have lit: \<open>version_payload ''2.2.0'' = ''{"ignition":{"version":"2.2.0"}}''\<close>
    by (simp add: version_payload_def)
  have p1: "snd (snd (v1_Parse sample_parsers ?d)) = Some ErrUnknownVersion"
    by (simp add: sample_parsers_def sample_Parse_def version_payload_def)
  have p2: "snd (snd (v2_Parse sample_parsers ?d)) = Some ErrUnknownVersion"
    by (simp add: sample_parsers_def sample_Parse_def version_payload_def)
  have p21: "snd (snd (v21_Parse sample_parsers ?d)) = Some ErrUnknownVersion"
    by (simp add: sample_parsers_def sample_Parse_def version_payload_def)
  have p22: "v22_Parse sample_parsers ?d = (emptyV22, noReport, None)"
    by (simp add: sample_parsers_def sample_Parse_def)
  have h: "snd (snd (v1_Parse sample_parsers ?d)) = Some ErrUnknownVersion \<and>
    snd (snd (v2_Parse sample_parsers ?d)) = Some ErrUnknownVersion \<and>
    snd (snd (v21_Parse sample_parsers ?d)) = Some ErrUnknownVersion \<and>
    v22_Parse sample_parsers ?d = (emptyV22, noReport, None)"
    by (intro conjI) (rule p1, rule p2, rule p21, rule p22)
  note accepted = Render_tries_versions_in_ascending_order [where P = sample_parsers
      and L = sample_lib and ctPlatform = "''qemu''" and cfg = emptyV22 and report = noReport,
      THEN conjunct2, THEN conjunct2, THEN mp, OF h]
  have k: "kind (Ignition ?d) = kindIgnition"
    by (simp add: Ignition_def)
  have k9: "kind (Ignition (version_payload ''9.9.9'')) = kindIgnition"
    by (simp add: Ignition_def)
  have c1: "spec_cascade Err3UnknownVersion
      (cascade_attempts rejecting_parsers (data (Ignition ?d))) (newConf (User (Ignition ?d)))
      = Inl (ErrLibrary ''syntax error'')"
    by (simp add: cascade_attempts_def attempt_of_def rejecting_parsers_def sample_parsers_def
        sample_Parse_def version_payload_def Ignition_def)
  have c9: "spec_cascade Err3UnknownVersion
      (cascade_attempts sample_parsers (data (Ignition (version_payload ''9.9.9''))))
      (newConf (User (Ignition (version_payload ''9.9.9'')))) = Inl Err3UnknownVersion"
    by (simp add: cascade_attempts_def attempt_of_def sample_parsers_def
        sample_Parse_def version_payload_def Ignition_def)
  have rejected: "Render sample_lib rejecting_parsers ''qemu'' (Ignition ?d) =
     (Ignition ?d, Failed (ErrLibrary ''syntax error''))"
    using Render_tries_versions_in_ascending_order [where P = rejecting_parsers
      and L = sample_lib and ctPlatform = "''qemu''" and u = "Ignition ?d",
      THEN conjunct2, THEN conjunct1, THEN mp, OF k]
    by (simp only: c1 sum.case)
  have exhausted: "Render sample_lib sample_parsers ''qemu'' (Ignition (version_payload ''9.9.9'')) =
     (Ignition (version_payload ''9.9.9''), Failed Err3UnknownVersion)"
    using Render_tries_versions_in_ascending_order [where P = sample_parsers
      and L = sample_lib and ctPlatform = "''qemu''" and u = "Ignition (version_payload ''9.9.9'')",
      THEN conjunct2, THEN conjunct1, THEN mp, OF k9]
    by (simp only: c9 sum.case)
  show ?thesis
    by (intro conjI) (rule lit, rule p1, rule p2, rule p21, rule p22,
      rule accepted [THEN conjunct1], rule accepted [THEN conjunct2], rule k, rule rejected,
      rule exhausted)
qed

section \<open>Render and the receiver\<close>

lemma fst_Render: "fst (Render L P ctPlatform u) = fst (renderKind P ctPlatform u (newConf (User u)))"
  by (simp add: Render_def split: prod.splits outcome.splits sum.splits)

lemma renderKind_keeps_receiver:
  "kind u \<noteq> kindButane \<Longrightarrow> fst (renderKind P ctPlatform u c) = u"
  by (simp add: renderKind_def Let_def split: prod.splits sum.splits)

lemma renderKind_Butane_failed_translation:
  "kind u = kindButane \<Longrightarrow> butane_TranslateBytes P (data u) = (ignc, report, err) \<Longrightarrow>
   err \<noteq> None \<or> report_IsFatal report \<Longrightarrow> fst (renderKind P ctPlatform u c) = u"
  by (auto simp add: renderKind_def kind_defs)

lemma renderKind_Butane_translated:
  "kind u = kindButane \<Longrightarrow> butane_TranslateBytes P (data u) = (ignc, report, None) \<Longrightarrow>
   \<not> report_IsFatal report \<Longrightarrow>
   fst (renderKind P ctPlatform u c) = u\<lparr>data := ignc, kind := kindIgnition\<rparr>"
  by (simp add: renderKind_def kind_defs Let_def split: sum.splits)

text \<open>
  C2. The claim: no operation changes the kind or the text of the \<open>UserData\<close> it is
  called on, \<open>Render\<close> of the Butane kind included. \<open>Subst\<close> and \<open>AddKey\<close> work on a
  copy, and \<open>Render\<close> leaves the receiver as it is for every kind but Butane. For the
  Butane kind, once the translation succeeds, \<open>Render\<close> assigns the translated bytes
  to \<open>u.data\<close> and \<open>kindIgnition\<close> to \<open>u.kind\<close>: the receiver is changed, against
  the doc comment of the type (an immutable configuration).
\<close>

theorem Render_Butane_rewrites_receiver:
  "(kind u \<noteq> kindButane \<longrightarrow> fst (Render L P ctPlatform u) = u) \<and>
   (kind u = kindButane \<and> butane_TranslateBytes P (data u) = (ignc, report, None) \<and>
    \<not> report_IsFatal report \<longrightarrow>
      fst (Render L P ctPlatform u) = u\<lparr>data := ignc, kind := kindIgnition\<rparr> \<and>
      kind (fst (Render L P ctPlatform u)) \<noteq> kind u)"
proof (intro conjI impI)
  assume n: "kind u \<noteq> kindButane"
  show "fst (Render L P ctPlatform u) = u"
    using renderKind_keeps_receiver [OF n] by (simp only: fst_Render)
next
  assume a: "kind u = kindButane \<and> butane_TranslateBytes P (data u) = (ignc, report, None) \<and>
    \<not> report_IsFatal report"
  show r: "fst (Render L P ctPlatform u) = u\<lparr>data := ignc, kind := kindIgnition\<rparr>"
    using renderKind_Butane_translated [OF a [THEN conjunct1] a [THEN conjunct2, THEN conjunct1]
        a [THEN conjunct2, THEN conjunct2]]
    by (simp only: fst_Render)
  show "kind (fst (Render L P ctPlatform u)) \<noteq> kind u"
    using a by (simp add: r kind_defs)
qed

theorem Render_Butane_rewrites_receiver_witness:
  "kind (Butane ''variant: flatcar'') = kindButane \<and>
   butane_TranslateBytes sample_parsers (data (Butane ''variant: flatcar''))
     = (version_payload ''3.3.0'', noReport, None) \<and>
   \<not> report_IsFatal noReport \<and>
   fst (Render sample_lib sample_parsers ''qemu'' (Butane ''variant: flatcar''))
     = \<lparr>kind = kindIgnition, data = version_payload ''3.3.0'', extraKeys = [], User = []\<rparr> \<and>
   kind (fst (Render sample_lib sample_parsers ''qemu'' (Butane ''variant: flatcar'')))
     \<noteq> kind (Butane ''variant: flatcar'') \<and>
   data (fst (Render sample_lib sample_parsers ''qemu'' (Butane ''variant: flatcar'')))
     \<noteq> data (Butane ''variant: flatcar'')"
proof -
  let ?u = "Butane ''variant: flatcar''"
  have k: "kind ?u = kindButane"
    by (simp add: Butane_def)
  have t: "butane_TranslateBytes sample_parsers (data ?u) = (version_payload ''3.3.0'', noReport, None)"
    by (simp add: sample_parsers_def)
  have f: "\<not> report_IsFatal noReport"
    by (simp add: noReport_def)
  have h: "kind ?u = kindButane \<and>
    butane_TranslateBytes sample_parsers (data ?u) = (version_payload ''3.3.0'', noReport, None) \<and>
    \<not> report_IsFatal noReport"
    by (intro conjI) (rule k, rule t, rule f)
  note w = Render_Butane_rewrites_receiver [where u = ?u and P = sample_parsers and L = sample_lib
      and ctPlatform = "''qemu''", THEN conjunct2, THEN mp, OF h]
  have r: "fst (Render sample_lib sample_parsers ''qemu'' ?u)
     = \<lparr>kind = kindIgnition, data = version_payload ''3.3.0'', extraKeys = [], User = []\<rparr>"
    using w [THEN conjunct1] by (simp add: Butane_def)
  have d: "data (fst (Render sample_lib sample_parsers ''qemu'' ?u)) \<noteq> data ?u"
    unfolding r by (simp add: Butane_def version_payload_def)
  show ?thesis
    by (intro conjI) (rule k, rule t, rule f, rule r, rule w [THEN conjunct2], rule d)
qed

end
